theory Spec2Isabelle
  imports Complex_Main "HOL-Library.AList" "HOL-Library.Sublist" "HOL-Library.Stream"
    "HOL-Library.Multiset"
begin

section \<open>Python values used by the legal assistant\<close>

text \<open>
  The module \<^verbatim>\<open>backend/legal_ai.py\<close> works on Python strings. A text is modelled as a
  \<^typ>\<open>string\<close>; one \<^typ>\<open>char\<close> stands for the code point of the same number, so the
  character tests below follow Python's Unicode tables on the range U+0000 to U+00FF.
  Exceptions are values of \<open>py_error\<close>; a function that can raise returns
  \<open>py_error + 'a\<close>.
\<close>

datatype py_error = ZeroDivisionError | ValueError | TypeError | KeyError | OSError

definition codepoint :: "char \<Rightarrow> int" where
  "codepoint c = of_char c"

definition isspace :: "int \<Rightarrow> bool" where
  \<comment> \<open>\<^verbatim>\<open>str.isspace\<close> of a code point, which is also the class \<^verbatim>\<open>\s\<close> of a str pattern\<close>
  "isspace n = ((9 \<le> n \<and> n \<le> 13) \<or> (28 \<le> n \<and> n \<le> 32) \<or> n = 133 \<or> n = 160)"

definition isdecimal :: "int \<Rightarrow> bool" where
  \<comment> \<open>the class \<^verbatim>\<open>\d\<close> of a str pattern\<close>
  "isdecimal n = (48 \<le> n \<and> n \<le> 57)"

definition isword :: "int \<Rightarrow> bool" where
  \<comment> \<open>the class \<^verbatim>\<open>\w\<close> of a str pattern: \<^verbatim>\<open>str.isalnum\<close> or the underscore\<close>
  "isword n =
     ((48 \<le> n \<and> n \<le> 57) \<or> (65 \<le> n \<and> n \<le> 90) \<or> n = 95 \<or> (97 \<le> n \<and> n \<le> 122) \<or>
      n = 170 \<or> n = 178 \<or> n = 179 \<or> n = 181 \<or> n = 185 \<or> n = 186 \<or>
      (188 \<le> n \<and> n \<le> 190) \<or> (192 \<le> n \<and> n \<le> 214) \<or> (216 \<le> n \<and> n \<le> 246) \<or>
      248 \<le> n)"

definition lower_code :: "int \<Rightarrow> int" where
  \<comment> \<open>the lower-case mapping the regular-expression engine folds case with\<close>
  "lower_code n =
     (if (65 \<le> n \<and> n \<le> 90) \<or> (192 \<le> n \<and> n \<le> 222 \<and> n \<noteq> 215) then n + 32 else n)"

definition upper_char :: "char \<Rightarrow> char" where
  \<comment> \<open>\<^verbatim>\<open>str.upper\<close> on one character of an ASCII text (the category names are ASCII)\<close>
  "upper_char c =
     (case map_of (zip ''abcdefghijklmnopqrstuvwxyz'' ''ABCDEFGHIJKLMNOPQRSTUVWXYZ'') c of
        None \<Rightarrow> c
      | Some u \<Rightarrow> u)"

definition str_upper :: "string \<Rightarrow> string" where
  "str_upper s = map upper_char s"

fun split_from :: "string \<Rightarrow> string \<Rightarrow> string list" where
  "split_from cur [] = (if cur = [] then [] else [cur])"
| "split_from cur (x # xs) =
     (if isspace (codepoint x)
      then (if cur = [] then split_from [] xs else cur # split_from [] xs)
      else split_from (cur @ [x]) xs)"

definition str_split :: "string \<Rightarrow> string list" where
  \<comment> \<open>\<^verbatim>\<open>text.split()\<close>: the maximal runs of characters that are not whitespace\<close>
  "str_split text = split_from [] text"

definition truediv :: "real \<Rightarrow> real \<Rightarrow> py_error + real" where
  \<comment> \<open>Python's \<^verbatim>\<open>/\<close>; the float result is idealised as a real number\<close>
  "truediv a b = (if b = 0 then Inl ZeroDivisionError else Inr (a / b))"

section \<open>Regular expressions of the \<^verbatim>\<open>re\<close> module\<close>

text \<open>
  The patterns of the module use literals, character classes, the word boundary,
  concatenation, ordered alternation and greedy bounded or unbounded repetition. A pattern
  is a value of \<open>regex\<close>; groups are left out, since no pattern refers back to one.
  The matcher is the backtracking search of \<^verbatim>\<open>re\<close>: from a position it lists the positions
  where a match can end, in the order in which backtracking tries them, so the head of the
  list is the match the engine reports. A position is the character before it (if any)
  and the text that remains.
\<close>

datatype cset = Chars string | Range char char | ClassD | ClassS | ClassW

datatype regex =
    Eps
  | Lit char
  | OneOf "cset list"
  | WordB
  | Seq regex regex
  | Alt regex regex
  | Rep nat "nat option" regex

type_synonym pos = "char option \<times> string"

fun in_cset :: "cset \<Rightarrow> int \<Rightarrow> bool" where
  "in_cset (Chars cs) n = (n \<in> codepoint ` set cs)"
| "in_cset (Range a b) n = (codepoint a \<le> n \<and> n \<le> codepoint b)"
| "in_cset ClassD n = isdecimal n"
| "in_cset ClassS n = isspace n"
| "in_cset ClassW n = isword n"

definition lit_eq :: "bool \<Rightarrow> char \<Rightarrow> char \<Rightarrow> bool" where
  \<comment> \<open>a literal of the pattern against a character of the text; \<open>ic\<close> is the flag \<^verbatim>\<open>(?i)\<close>\<close>
  "lit_eq ic c x =
     (if ic then lower_code (codepoint x) = lower_code (codepoint c) else x = c)"

definition in_class :: "bool \<Rightarrow> cset list \<Rightarrow> char \<Rightarrow> bool" where
  \<comment> \<open>under \<^verbatim>\<open>(?i)\<close> a class holds the characters whose lower case is that of a member\<close>
  "in_class ic cs x =
     (if ic
      then \<exists>c \<in> set cs. \<exists>m \<in> set [0..255]. in_cset c m \<and> lower_code m = lower_code (codepoint x)
      else \<exists>c \<in> set cs. in_cset c (codepoint x))"

definition at_boundary :: "pos \<Rightarrow> bool" where
  \<comment> \<open>\<^verbatim>\<open>\b\<close>: exactly one of the two neighbours is a word character\<close>
  "at_boundary p =
     ((case fst p of None \<Rightarrow> False | Some c \<Rightarrow> isword (codepoint c)) \<noteq>
      (case snd p of [] \<Rightarrow> False | x # _ \<Rightarrow> isword (codepoint x)))"

fun rep_exact :: "(pos \<Rightarrow> pos list) \<Rightarrow> nat \<Rightarrow> pos \<Rightarrow> pos list" where
  "rep_exact f 0 p = [p]"
| "rep_exact f (Suc n) p = concat (map (rep_exact f n) (f p))"

function rep_greedy :: "(pos \<Rightarrow> pos list) \<Rightarrow> nat option \<Rightarrow> pos \<Rightarrow> pos list" where
  "rep_greedy f hi p =
     (if hi = Some 0 then [p]
      else concat (map (\<lambda>q. if length (snd q) < length (snd p)
                             then rep_greedy f (map_option (\<lambda>h. h - 1) hi) q else [])
                       (f p)) @ [p])"
  by pat_completeness auto
termination
  by (relation "measure (\<lambda>(f, hi, p). length (snd p))") auto

declare rep_greedy.simps [simp del]

primrec ends :: "regex \<Rightarrow> bool \<Rightarrow> pos \<Rightarrow> pos list" where
  "ends Eps ic p = [p]"
| "ends (Lit c) ic p =
     (case snd p of [] \<Rightarrow> [] | x # xs \<Rightarrow> if lit_eq ic c x then [(Some x, xs)] else [])"
| "ends (OneOf cs) ic p =
     (case snd p of [] \<Rightarrow> [] | x # xs \<Rightarrow> if in_class ic cs x then [(Some x, xs)] else [])"
| "ends WordB ic p = (if at_boundary p then [p] else [])"
| "ends (Seq a b) ic p = concat (map (ends b ic) (ends a ic p))"
| "ends (Alt a b) ic p = ends a ic p @ ends b ic p"
| "ends (Rep lo hi a) ic p =
     concat (map (rep_greedy (ends a ic) (map_option (\<lambda>h. h - lo) hi)) (rep_exact (ends a ic) lo p))"

definition match_lens :: "regex \<Rightarrow> bool \<Rightarrow> pos \<Rightarrow> nat list" where
  \<comment> \<open>the lengths of the matches that start at \<open>p\<close>, in backtracking order\<close>
  "match_lens r ic p = map (\<lambda>q. length (snd p) - length (snd q)) (ends r ic p)"

definition advance :: "nat \<Rightarrow> pos \<Rightarrow> pos" where
  "advance n p = (case take n (snd p) of [] \<Rightarrow> p | m # ms \<Rightarrow> (Some (last (m # ms)), drop n (snd p)))"

function finditer_from :: "regex \<Rightarrow> bool \<Rightarrow> bool \<Rightarrow> pos \<Rightarrow> string list" where
  "finditer_from r ic adv p =
     (case (if adv then filter (\<lambda>n. 0 < n) (match_lens r ic p) else match_lens r ic p) of
        [] \<Rightarrow> (case snd p of [] \<Rightarrow> [] | x # xs \<Rightarrow> finditer_from r ic False (Some x, xs))
      | n # _ \<Rightarrow> take n (snd p) # finditer_from r ic (n = 0) (advance n p))"
  by pat_completeness auto
termination
proof (relation "measure (\<lambda>(r, ic, adv, p). 2 * length (snd p) + (if adv then 0 else 1))",
    goal_cases)
  case 1
  show ?case by simp
next
  case (2 r ic adv p x xs)
  then show ?case by simp
next
  case (3 r ic adv p n ns)
  have mem: "n \<in> set (if adv then filter (\<lambda>n. 0 < n) (match_lens r ic p) else match_lens r ic p)"
    using 3 by simp
  show ?case
  proof (cases "n = 0")
    case True
    with mem have "\<not> adv" by (auto split: if_splits)
    with True show ?thesis by (simp add: advance_def)
  next
    case False
    from mem have "n \<in> set (match_lens r ic p)" by (auto split: if_splits)
    then have le: "n \<le> length (snd p)" by (auto simp: match_lens_def)
    with False have ne: "snd p \<noteq> []" by auto
    then obtain m ms where tk: "take n (snd p) = m # ms"
      using False by (cases "snd p") (auto simp: take_Cons')
    from False le show ?thesis by (simp add: advance_def tk)
  qed
qed

declare finditer_from.simps [simp del]

type_synonym pattern = "bool \<times> regex"

definition ignorecase :: "regex \<Rightarrow> pattern" where
  \<comment> \<open>a pattern that starts with the flag \<^verbatim>\<open>(?i)\<close>\<close>
  "ignorecase r = (True, r)"

definition plain :: "regex \<Rightarrow> pattern" where
  "plain r = (False, r)"

definition finditer :: "pattern \<Rightarrow> string \<Rightarrow> string list" where
  \<comment> \<open>the matched texts of \<^verbatim>\<open>re.finditer(pattern, text)\<close>, left to right\<close>
  "finditer pat text = finditer_from (snd pat) (fst pat) False (None, text)"

definition findall :: "pattern \<Rightarrow> string \<Rightarrow> string list" where
  \<comment> \<open>\<^verbatim>\<open>re.findall\<close> for a pattern that is one group: the group is the whole match\<close>
  "findall pat text = finditer pat text"

fun seqs :: "regex list \<Rightarrow> regex" where
  "seqs [] = Eps"
| "seqs [r] = r"
| "seqs (r # rs) = Seq r (seqs rs)"

fun alts :: "regex list \<Rightarrow> regex" where
  "alts [] = OneOf []"
| "alts [r] = r"
| "alts (r # rs) = Alt r (alts rs)"

definition lit :: "string \<Rightarrow> regex" where
  "lit s = seqs (map Lit s)"

definition words_re :: "string list \<Rightarrow> regex" where
  "words_re ws = alts (map lit ws)"

abbreviation opt_re :: "regex \<Rightarrow> regex" where
  "opt_re r \<equiv> Rep 0 (Some 1) r"

abbreviation star_re :: "regex \<Rightarrow> regex" where
  "star_re r \<equiv> Rep 0 None r"

abbreviation plus_re :: "regex \<Rightarrow> regex" where
  "plus_re r \<equiv> Rep 1 None r"

definition digit :: regex where
  "digit = OneOf [ClassD]"

definition space :: regex where
  "space = OneOf [ClassS]"

definition capital :: regex where
  "capital = OneOf [Range CHR ''A'' CHR ''Z'']"

definition small :: regex where
  "small = OneOf [Range CHR ''a'' CHR ''z'']"

section \<open>Dictionaries\<close>

text \<open>
  A Python dict keeps its keys in insertion order, and the module iterates over its
  dicts, so a dict is an association list with distinct keys: \<open>d[k] = v\<close> is
  \<^const>\<open>AList.update\<close> (replace in place, or append a new key), and \<open>d.update(e)\<close> stores
  the items of \<open>e\<close> one after the other.
\<close>

definition dict_update :: "('k \<times> 'v) list \<Rightarrow> ('k \<times> 'v) list \<Rightarrow> ('k \<times> 'v) list" where
  "dict_update d e = fold (\<lambda>kv. AList.update (fst kv) (snd kv)) e d"

definition dict_get :: "('k \<times> 'v) list \<Rightarrow> 'k \<Rightarrow> 'v option" where
  \<comment> \<open>\<^verbatim>\<open>d.get(k)\<close>; \<open>None\<close> is Python's \<^verbatim>\<open>None\<close>\<close>
  "dict_get d k = map_of d k"

definition dict_keys :: "('k \<times> 'v) list \<Rightarrow> 'k list" where
  "dict_keys d = map fst d"

section \<open>Entity extraction\<close>

text \<open>
  The pattern table of \<^verbatim>\<open>_extract_legal_entities\<close>, in the order of the source. The euro
  sign of the money pattern is U+20AC, which no text of the modelled range contains: its
  branch is the empty class, which matches nothing.
\<close>

text \<open>
  The patterns as the source writes them (a long pattern is cut into lines; in the money
  pattern \<open>POUND\<close> and \<open>EURO\<close> stand for the two currency signs U+00A3 and U+20AC):

  \<^item> \<open>date\<close>:
    \<^verbatim>\<open>\b(?:Jan(?:uary)?|Feb(?:ruary)?|Mar(?:ch)?|Apr(?:il)?|May|Jun(?:e)?|Jul(?:y)?|Aug(?:\<close>
    \<^verbatim>\<open>ust)?|Sep(?:tember)?|Oct(?:ober)?|Nov(?:ember)?|Dec(?:ember)?)\s+\d{1,2},\s+\d{4}\b|\<close>
    \<^verbatim>\<open>\b\d{1,2}/\d{1,2}/\d{2,4}\b|\b\d{1,2}-\d{1,2}-\d{2,4}\b\<close>
  \<^item> \<open>money\<close>:
    \<^verbatim>\<open>\$\s*\d+(?:,\d+)*(?:\.\d+)?|\b\d+(?:,\d+)*(?:\.\d+)?\s*(?:dollars|USD|Rs\.?|INR|POUN\<close>
    \<^verbatim>\<open>D|EURO)\<close>
  \<^item> \<open>person\<close>:
    \<^verbatim>\<open>\b(?:[A-Z][a-z]+ [A-Z][a-z]+(?:\s+[A-Z][a-z]+)?)\b\<close>
  \<^item> \<open>organization\<close>:
    \<^verbatim>\<open>\b(?:[A-Z][a-z]*\s*(?:&|and)?\s*)+(?:L\.?L\.?C\.?|Inc\.?|Ltd\.?|Corporation|Corp\.?|\<close>
    \<^verbatim>\<open>Company|Co\.?)\b\<close>
  \<^item> \<open>address\<close>:
    \<^verbatim>\<open>\b\d+\s+[A-Za-z0-9\s,.]+\b(?:Street|St|Avenue|Ave|Road|Rd|Boulevard|Blvd|Lane|Ln|Dri\<close>
    \<^verbatim>\<open>ve|Dr|Court|Ct|Plaza|Plz|Terrace|Ter|Place|Pl)\b\<close>
  \<^item> \<open>phone\<close>:
    \<^verbatim>\<open>\b(?:\+\d{1,3}\s?)?(?:\(\d{3}\)|\d{3})[-.\s]?\d{3}[-.\s]?\d{4}\b\<close>
  \<^item> \<open>email\<close>:
    \<^verbatim>\<open>\b[A-Za-z0-9._%+-]+@[A-Za-z0-9.-]+\.[A-Z|a-z]{2,}\b\<close>
  \<^item> \<open>url\<close>:
    \<^verbatim>\<open>\bhttps?://(?:www\.)?[-a-zA-Z0-9@:%._\+~#=]{1,256}\.[a-zA-Z0-9()]{1,6}\b(?:[-a-zA-Z0\<close>
    \<^verbatim>\<open>-9()@:%_\+.~#?&//=]*)\<close>
  \<^item> \<open>clause\<close>:
    \<^verbatim>\<open>\b(?:Section|Clause|Article|Paragraph)\s+\d+(?:\.\d+)*\<close>
  \<^item> \<open>percentage\<close>:
    \<^verbatim>\<open>\b\d+(?:\.\d+)?\s*%\<close>
  \<^item> \<open>party\<close>:
    \<^verbatim>\<open>\bparty of the (?:first|second) part\b|\bthe (?:seller|buyer|lessor|lessee|vendor|pu\<close>
    \<^verbatim>\<open>rchaser|landlord|tenant|licensor|licensee)\b\<close>
  \<^item> \<open>effective_date\<close>:
    \<^verbatim>\<open>\beffective date\b|\bcommencement date\b\<close>
  \<^item> \<open>termination\<close>:
    \<^verbatim>\<open>\btermination\b|\bexpiration\b|\bcancellation\b\<close>
  \<^item> \<open>governing_law\<close>:
    \<^verbatim>\<open>\bgoverning law\b|\bjurisdiction\b|\bvenue\b\<close>
  \<^item> \<open>indemnity\<close>:
    \<^verbatim>\<open>\bindemnity\b|\bindemnification\b|\bhold harmless\b\<close>
  \<^item> \<open>warranty\<close>:
    \<^verbatim>\<open>\bwarranty\b|\bguarantee\b|\brepresent and warrant\b\<close>
  \<^item> \<open>citation\<close>:
    \<^verbatim>\<open>\b\d+\s+[A-Za-z]+\s+\d+\b|\b\[\d{4}\]\s+\w+\s+\d+\b\<close>
  \<^item> \<open>court\<close>:
    \<^verbatim>\<open>\b(?:Supreme Court|High Court|District Court|Federal Court|Appellate Court|Court of \<close>
    \<^verbatim>\<open>Appeals)\b\<close>
  \<^item> \<open>judge\<close>:
    \<^verbatim>\<open>\bJustice\s+[A-Z][a-z]+\b|\bJudge\s+[A-Z][a-z]+\b|\bHon\'?ble\s+[A-Z][a-z]+\b\<close>
  \<^item> \<open>statute\<close>:
    \<^verbatim>\<open>\b(?:Act|Code|Statute|Law|Regulation)\s+of\s+\d{4}\b\<close>
\<close>

definition month_re :: regex where
  "month_re = alts
     [seqs [lit ''Jan'', opt_re (lit ''uary'')], seqs [lit ''Feb'', opt_re (lit ''ruary'')],
      seqs [lit ''Mar'', opt_re (lit ''ch'')], seqs [lit ''Apr'', opt_re (lit ''il'')],
      lit ''May'', seqs [lit ''Jun'', opt_re (lit ''e'')], seqs [lit ''Jul'', opt_re (lit ''y'')],
      seqs [lit ''Aug'', opt_re (lit ''ust'')], seqs [lit ''Sep'', opt_re (lit ''tember'')],
      seqs [lit ''Oct'', opt_re (lit ''ober'')], seqs [lit ''Nov'', opt_re (lit ''ember'')],
      seqs [lit ''Dec'', opt_re (lit ''ember'')]]"

definition date_re :: regex where
  "date_re = alts
     [seqs [WordB, month_re, plus_re space, Rep 1 (Some 2) digit, lit '','', plus_re space,
            Rep 4 (Some 4) digit, WordB],
      seqs [WordB, Rep 1 (Some 2) digit, lit ''/'', Rep 1 (Some 2) digit, lit ''/'',
            Rep 2 (Some 4) digit, WordB],
      seqs [WordB, Rep 1 (Some 2) digit, lit ''-'', Rep 1 (Some 2) digit, lit ''-'',
            Rep 2 (Some 4) digit, WordB]]"

definition amount_re :: regex where
  \<comment> \<open>digits, groups of a comma and digits, an optional fraction\<close>
  "amount_re = seqs [plus_re digit, star_re (seqs [lit '','', plus_re digit]),
                     opt_re (seqs [lit ''.'', plus_re digit])]"

definition money_re :: regex where
  "money_re = alts
     [seqs [lit ''$'', star_re space, amount_re],
      seqs [WordB, amount_re, star_re space,
            alts [lit ''dollars'', lit ''USD'', seqs [lit ''Rs'', opt_re (lit ''.'')], lit ''INR'',
                  Lit (CHR 0xA3), OneOf []]]]"

definition name_re :: regex where
  \<comment> \<open>a capital letter and one or more small letters\<close>
  "name_re = seqs [capital, plus_re small]"

definition person_re :: regex where
  "person_re = seqs [WordB, name_re, lit '' '', name_re,
                     opt_re (seqs [plus_re space, name_re]), WordB]"

definition organization_re :: regex where
  "organization_re = seqs
     [WordB,
      plus_re (seqs [capital, star_re small, star_re space,
                     opt_re (alts [lit ''&'', lit ''and'']), star_re space]),
      alts [seqs [lit ''L'', opt_re (lit ''.''), lit ''L'', opt_re (lit ''.''), lit ''C'',
                  opt_re (lit ''.'')],
            seqs [lit ''Inc'', opt_re (lit ''.'')], seqs [lit ''Ltd'', opt_re (lit ''.'')],
            lit ''Corporation'', seqs [lit ''Corp'', opt_re (lit ''.'')], lit ''Company'',
            seqs [lit ''Co'', opt_re (lit ''.'')]],
      WordB]"

definition address_re :: regex where
  "address_re = seqs
     [WordB, plus_re digit, plus_re space,
      plus_re (OneOf [Range CHR ''A'' CHR ''Z'', Range CHR ''a'' CHR ''z'',
                      Range CHR ''0'' CHR ''9'', ClassS, Chars '',.'']),
      WordB,
      words_re [''Street'', ''St'', ''Avenue'', ''Ave'', ''Road'', ''Rd'', ''Boulevard'', ''Blvd'',
                ''Lane'', ''Ln'', ''Drive'', ''Dr'', ''Court'', ''Ct'', ''Plaza'', ''Plz'', ''Terrace'',
                ''Ter'', ''Place'', ''Pl''],
      WordB]"

definition phone_re :: regex where
  "phone_re = seqs
     [WordB, opt_re (seqs [lit ''+'', Rep 1 (Some 3) digit, opt_re space]),
      alts [seqs [lit ''('', Rep 3 (Some 3) digit, lit '')''], Rep 3 (Some 3) digit],
      opt_re (OneOf [Chars ''-.'', ClassS]), Rep 3 (Some 3) digit,
      opt_re (OneOf [Chars ''-.'', ClassS]), Rep 4 (Some 4) digit, WordB]"

definition email_re :: regex where
  "email_re = seqs
     [WordB,
      plus_re (OneOf [Range CHR ''A'' CHR ''Z'', Range CHR ''a'' CHR ''z'',
                      Range CHR ''0'' CHR ''9'', Chars ''._%+-'']),
      lit ''@'',
      plus_re (OneOf [Range CHR ''A'' CHR ''Z'', Range CHR ''a'' CHR ''z'',
                      Range CHR ''0'' CHR ''9'', Chars ''.-'']),
      lit ''.'',
      Rep 2 None (OneOf [Range CHR ''A'' CHR ''Z'', Chars ''|'', Range CHR ''a'' CHR ''z'']),
      WordB]"

definition url_re :: regex where
  "url_re = seqs
     [WordB, lit ''http'', opt_re (lit ''s''), lit ''://'', opt_re (lit ''www.''),
      Rep 1 (Some 256)
        (OneOf [Chars ''-'', Range CHR ''a'' CHR ''z'', Range CHR ''A'' CHR ''Z'',
                Range CHR ''0'' CHR ''9'', Chars ''@:%._+~#='']),
      lit ''.'',
      Rep 1 (Some 6)
        (OneOf [Range CHR ''a'' CHR ''z'', Range CHR ''A'' CHR ''Z'', Range CHR ''0'' CHR ''9'',
                Chars ''()'']),
      WordB,
      star_re (OneOf [Chars ''-'', Range CHR ''a'' CHR ''z'', Range CHR ''A'' CHR ''Z'',
                      Range CHR ''0'' CHR ''9'', Chars ''()@:%_+.~#?&//=''])]"

definition clause_re :: regex where
  "clause_re = seqs
     [WordB, words_re [''Section'', ''Clause'', ''Article'', ''Paragraph''], plus_re space,
      plus_re digit, star_re (seqs [lit ''.'', plus_re digit])]"

definition percentage_re :: regex where
  "percentage_re = seqs
     [WordB, plus_re digit, opt_re (seqs [lit ''.'', plus_re digit]), star_re space, lit ''%'']"

definition patterns :: "(string \<times> pattern) list" where
  "patterns =
     [(''date'', plain date_re), (''money'', plain money_re), (''person'', plain person_re),
      (''organization'', plain organization_re), (''address'', plain address_re),
      (''phone'', plain phone_re), (''email'', plain email_re), (''url'', plain url_re),
      (''clause'', plain clause_re), (''percentage'', plain percentage_re)]"

definition bounded :: "string list \<Rightarrow> regex" where
  \<comment> \<open>alternatives that each stand between two word boundaries\<close>
  "bounded ws = alts (map (\<lambda>w. seqs [WordB, lit w, WordB]) ws)"

definition party_re :: regex where
  "party_re = alts
     [seqs [WordB, lit ''party of the '', words_re [''first'', ''second''], lit '' part'', WordB],
      seqs [WordB, lit ''the '',
            words_re [''seller'', ''buyer'', ''lessor'', ''lessee'', ''vendor'', ''purchaser'',
                      ''landlord'', ''tenant'', ''licensor'', ''licensee''],
            WordB]]"

definition contract_patterns :: "(string \<times> pattern) list" where
  "contract_patterns =
     [(''party'', plain party_re),
      (''effective_date'', plain (bounded [''effective date'', ''commencement date''])),
      (''termination'', plain (bounded [''termination'', ''expiration'', ''cancellation''])),
      (''governing_law'', plain (bounded [''governing law'', ''jurisdiction'', ''venue''])),
      (''indemnity'', plain (bounded [''indemnity'', ''indemnification'', ''hold harmless''])),
      (''warranty'', plain (bounded [''warranty'', ''guarantee'', ''represent and warrant'']))]"

definition citation_re :: regex where
  "citation_re = alts
     [seqs [WordB, plus_re digit, plus_re space,
            plus_re (OneOf [Range CHR ''A'' CHR ''Z'', Range CHR ''a'' CHR ''z'']),
            plus_re space, plus_re digit, WordB],
      seqs [WordB, lit ''['', Rep 4 (Some 4) digit, lit '']'', plus_re space,
            plus_re (OneOf [ClassW]), plus_re space, plus_re digit, WordB]]"

definition court_re :: regex where
  "court_re = seqs
     [WordB,
      words_re [''Supreme Court'', ''High Court'', ''District Court'', ''Federal Court'',
                ''Appellate Court'', ''Court of Appeals''],
      WordB]"

definition judge_re :: regex where
  "judge_re = alts
     [seqs [WordB, lit ''Justice'', plus_re space, name_re, WordB],
      seqs [WordB, lit ''Judge'', plus_re space, name_re, WordB],
      seqs [WordB, lit ''Hon'', opt_re (Lit (CHR 0x27)), lit ''ble'', plus_re space, name_re,
            WordB]]"

definition statute_re :: regex where
  "statute_re = seqs
     [WordB, words_re [''Act'', ''Code'', ''Statute'', ''Law'', ''Regulation''], plus_re space,
      lit ''of'', plus_re space, Rep 4 (Some 4) digit, WordB]"

definition judgment_patterns :: "(string \<times> pattern) list" where
  "judgment_patterns =
     [(''citation'', plain citation_re), (''court'', plain court_re), (''judge'', plain judge_re),
      (''statute'', plain statute_re)]"

record entity_match =
  word :: string
  entity :: string

definition patterns_for :: "string \<Rightarrow> (string \<times> pattern) list" where
  "patterns_for doc_type =
     (if doc_type = ''contract'' then dict_update patterns contract_patterns
      else if doc_type = ''judgment'' then dict_update patterns judgment_patterns
      else patterns)"

definition matches_of :: "string \<Rightarrow> string \<times> pattern \<Rightarrow> entity_match list" where
  \<comment> \<open>the inner loop: one entry for each match that is not the empty string\<close>
  "matches_of text kp =
     map (\<lambda>m. \<lparr>word = m, entity = str_upper (fst kp)\<rparr>)
       (filter (\<lambda>m. m \<noteq> []) (finditer (snd kp) text))"

definition all_entities :: "string \<Rightarrow> string \<Rightarrow> entity_match list" where
  \<comment> \<open>the list \<open>entities\<close> when the loop over the pattern table ends\<close>
  "all_entities text doc_type = concat (map (matches_of text) (patterns_for doc_type))"

definition extract_legal_entities :: "string \<Rightarrow> string \<Rightarrow> entity_match list" where
  "extract_legal_entities text doc_type = take 20 (all_entities text doc_type)"

section \<open>Document classification\<close>

text \<open>
  The table \<^verbatim>\<open>self.document_patterns\<close>: every pattern is \<^verbatim>\<open>(?i)\<close> followed by one group of
  alternative words.
\<close>

definition document_patterns :: "(string \<times> pattern) list" where
  "document_patterns =
     [(''contract'', ignorecase (words_re
        [''agreement'', ''contract'', ''terms'', ''conditions'', ''parties'', ''clause'', ''hereby'',
         ''agree'', ''consideration''])),
      (''judgment'', ignorecase (words_re
        [''judgment'', ''court'', ''ruling'', ''judge'', ''versus'', ''petitioner'', ''respondent'',
         ''plaintiff'', ''defendant'', ''bench'', ''justice'', ''order'', ''decree''])),
      (''legislation'', ignorecase (words_re
        [''act'', ''section'', ''statute'', ''law'', ''regulation'', ''provision'', ''legislature'',
         ''parliament'', ''amendment'', ''clause'', ''bill''])),
      (''will'', ignorecase (words_re
        [''testament'', ''will'', ''bequeath'', ''estate'', ''beneficiary'', ''executor'',
         ''probate'', ''heir'', ''inheritance'', ''devise'', ''legacy''])),
      (''affidavit'', ignorecase (words_re
        [''affidavit'', ''sworn'', ''deponent'', ''oath'', ''affirm'', ''verification'', ''notary'',
         ''attested''])),
      (''notice'', ignorecase (words_re
        [''notice'', ''hereby'', ''inform'', ''attention'', ''pursuant'', ''announce'',
         ''adjourned'', ''meeting''])),
      (''legal_opinion'', ignorecase (words_re
        [''opinion'', ''advice'', ''counsel'', ''consult'', ''recommended'', ''suggested'',
         ''pursuant to''])),
      (''mou'', ignorecase (words_re
        [''memorandum'', ''understanding'', ''mou'', ''intent'', ''non-binding'']))]"

fun max_from :: "('a \<Rightarrow> real option) \<Rightarrow> 'a \<Rightarrow> 'a list \<Rightarrow> py_error + 'a" where
  "max_from key best [] = Inr best"
| "max_from key best (x # xs) =
     (case (key x, key best) of
        (Some a, Some b) \<Rightarrow> max_from key (if b < a then x else best) xs
      | _ \<Rightarrow> Inl TypeError)"

definition py_max :: "'a list \<Rightarrow> ('a \<Rightarrow> real option) \<Rightarrow> py_error + 'a" where
  \<comment> \<open>\<^verbatim>\<open>max(xs, key=key)\<close>: an item replaces the best one only when its key is greater\<close>
  "py_max xs key = (case xs of [] \<Rightarrow> Inl ValueError | x # rest \<Rightarrow> max_from key x rest)"

fun score_loop ::
  "(string \<times> pattern) list \<Rightarrow> string \<Rightarrow> (string \<times> real) list \<Rightarrow> py_error + (string \<times> real) list"
where
  "score_loop [] text scores = Inr scores"
| "score_loop (kp # rest) text scores =
     (let matches = findall (snd kp) text in
      case truediv (real (length matches)) (real (length (str_split text)) / 100) of
        Inl e \<Rightarrow> Inl e
      | Inr score \<Rightarrow> score_loop rest text (AList.update (fst kp) (min score 1) scores))"

definition identify_document_type :: "string \<Rightarrow> py_error + string \<times> real" where
  "identify_document_type text =
     (case score_loop document_patterns text [] of
        Inl e \<Rightarrow> Inl e
      | Inr scores \<Rightarrow>
          if scores = [] then Inr (''unknown'', 0)
          else (case py_max (dict_keys scores) (dict_get scores) of
                  Inl e \<Rightarrow> Inl e
                | Inr best_type \<Rightarrow>
                    (case dict_get scores best_type of
                       None \<Rightarrow> Inl KeyError
                     | Some v \<Rightarrow> Inr (best_type, v))))"

definition capped_score :: "string \<Rightarrow> pattern \<Rightarrow> real" where
  \<comment> \<open>the score the loop stores for one pattern: matches per hundred words, at most 1\<close>
  "capped_score text pat =
     min (real (length (findall pat text)) / (real (length (str_split text)) / 100)) 1"

section \<open>Applicable laws\<close>

text \<open>
  \<^verbatim>\<open>_get_applicable_laws\<close> draws from Python's global random generator. The generator is
  an explicit state: a stream of natural numbers, of which \<open>randbelow n\<close> takes the next
  one modulo \<open>n\<close>, so every value below \<open>n\<close> can come out. \<open>random_sample\<close> is
  \<^verbatim>\<open>random.sample\<close> in the form CPython runs for a population of at most 21 items (the
  tables below give at most 9): it copies the population into a pool, and for each item
  it picks a position among those still in play and moves the last item in play there.
\<close>

type_synonym rng = "nat stream"

definition randbelow :: "nat \<Rightarrow> rng \<Rightarrow> nat \<times> rng" where
  "randbelow n g = (shd g mod n, stl g)"

fun sample_loop :: "'a list \<Rightarrow> nat \<Rightarrow> nat \<Rightarrow> rng \<Rightarrow> 'a list \<times> rng" where
  "sample_loop pool m 0 g = ([], g)"
| "sample_loop pool m (Suc k) g =
     (let (j, g') = randbelow m g;
          (rest, g'') = sample_loop (pool[j := pool ! (m - 1)]) (m - 1) k g'
      in (pool ! j # rest, g''))"

definition random_sample :: "'a list \<Rightarrow> nat \<Rightarrow> rng \<Rightarrow> py_error + 'a list \<times> rng" where
  "random_sample population k g =
     (if k \<le> length population then Inr (sample_loop population (length population) k g)
      else Inl ValueError)"

definition legal_frameworks :: "(string \<times> (string \<times> string list) list) list" where
  "legal_frameworks =
     [(''india'',
       [(''civil'', [''Code of Civil Procedure, 1908'', ''Indian Contract Act, 1872'',
                     ''Transfer of Property Act, 1882'', ''Specific Relief Act, 1963'',
                     ''Indian Evidence Act, 1872'']),
        (''criminal'', [''Indian Penal Code, 1860'', ''Code of Criminal Procedure, 1973'',
                        ''Criminal Law Amendment Act'']),
        (''commercial'', [''Companies Act, 2013'', ''Insolvency and Bankruptcy Code, 2016'',
                          ''Competition Act, 2002'', ''Foreign Exchange Management Act, 1999'']),
        (''property'', [''Registration Act, 1908'',
                        ''Real Estate (Regulation and Development) Act, 2016'']),
        (''family'', [''Hindu Marriage Act, 1955'', ''Special Marriage Act, 1954'',
                      ''Indian Succession Act, 1925''])]),
      (''us'',
       [(''civil'', [''Federal Rules of Civil Procedure'', ''Uniform Commercial Code'']),
        (''criminal'', [''Federal Criminal Code and Rules'', ''Model Penal Code'']),
        (''commercial'', [''Securities Act of 1933'', ''Securities Exchange Act of 1934'',
                          ''Sarbanes-Oxley Act''])])]"

definition category_map :: "(string \<times> string list) list" where
  "category_map =
     [(''contract'', [''civil'', ''commercial'']),
      (''judgment'', [''civil'', ''criminal'']),
      (''legislation'', []),
      (''will'', [''civil'', ''family'']),
      (''affidavit'', [''civil'', ''criminal'']),
      (''notice'', [''civil'', ''commercial'']),
      (''legal_opinion'', [''civil'', ''commercial'']),
      (''mou'', [''commercial''])]"

definition jurisdiction_data :: "string \<Rightarrow> (string \<times> string list) list" where
  \<comment> \<open>\<^verbatim>\<open>self.legal_frameworks.get(jurisdiction, {})\<close>\<close>
  "jurisdiction_data jurisdiction =
     (case dict_get legal_frameworks jurisdiction of None \<Rightarrow> [] | Some d \<Rightarrow> d)"

definition categories_of :: "string \<Rightarrow> string list" where
  \<comment> \<open>\<^verbatim>\<open>category_map.get(doc_type, [])\<close>\<close>
  "categories_of doc_type = (case dict_get category_map doc_type of None \<Rightarrow> [] | Some cs \<Rightarrow> cs)"

fun extend_laws :: "(string \<times> string list) list \<Rightarrow> string list \<Rightarrow> string list \<Rightarrow> string list" where
  "extend_laws jd [] applicable_laws = applicable_laws"
| "extend_laws jd (category # categories) applicable_laws =
     extend_laws jd categories
       (case dict_get jd category of
          None \<Rightarrow> applicable_laws
        | Some laws \<Rightarrow> applicable_laws @ laws)"

definition collected_laws :: "string \<Rightarrow> string \<Rightarrow> string list" where
  \<comment> \<open>the list \<open>applicable_laws\<close> when the loop over the categories ends\<close>
  "collected_laws doc_type jurisdiction =
     extend_laws (jurisdiction_data jurisdiction) (categories_of doc_type) []"

definition get_applicable_laws ::
  "rng \<Rightarrow> string \<Rightarrow> string \<Rightarrow> py_error + string list \<times> rng"
where
  "get_applicable_laws g doc_type jurisdiction =
     (let applicable_laws = collected_laws doc_type jurisdiction in
      if length applicable_laws > 3 then random_sample applicable_laws 3 g
      else Inr (applicable_laws, g))"

section \<open>Analysis texts\<close>

text \<open>
  The fixed texts of the module, character for character: the analysis of each document
  type, the general analysis, the heading of the list of laws, the disclaimer, and the text
  returned when no translation was produced.
\<close>

definition placeholder :: string where
  "placeholder =
     ''[Translation using open-source LLM failed. Please install transformers '' @
     ''library with 'pip install transformers sentencepiece' and ensure you have '' @
     ''enough memory.]''"

definition generic_analysis :: string where
  "generic_analysis =
     ''This appears to be a legal document. Based on the content, here's a general '' @
     ''analysis:\<newline>'' @
     ''\<newline>'' @
     ''1. Key points covered in the document include agreements between parties, '' @
     ''obligations, rights, and potential legal implications.\<newline>'' @
     ''\<newline>'' @
     ''2. For a comprehensive understanding, I recommend consulting with a legal '' @
     ''professional specialized in this area of law to interpret the specific '' @
     ''implications for your situation.\<newline>'' @
     ''\<newline>'' @
     ''3. Before taking any action based on this document, ensure that you '' @
     ''understand all terms and conditions, as legal documents often contain nuanced '' @
     ''language with significant legal consequences.''"

definition frameworks_heading :: string where
  "frameworks_heading =
     ''\<newline>'' @
     ''\<newline>'' @
     ''Applicable legal frameworks that may be relevant:\<newline>''"

definition disclaimer :: string where
  "disclaimer =
     ''\<newline>'' @
     ''\<newline>'' @
     ''DISCLAIMER: This analysis is provided for informational purposes only and '' @
     ''should not be construed as legal advice. Please consult with a qualified '' @
     ''legal professional for advice specific to your situation.''"

definition generate_contract_analysis :: "string \<Rightarrow> string" where
  "generate_contract_analysis text =
     ''This document appears to be a legal contract. Here's a detailed analysis:\<newline>'' @
     ''\<newline>'' @
     ''1. Contract Structure and Validity:\<newline>'' @
     ''   - The document contains standard contractual elements including parties' '' @
     ''details, consideration clauses, terms of agreement, and signature '' @
     ''requirements.\<newline>'' @
     ''   - The agreement appears to establish legally binding obligations between '' @
     ''the parties under contract law principles.\<newline>'' @
     ''\<newline>'' @
     ''2. Key Legal Provisions:\<newline>'' @
     ''   - Terms and conditions governing the relationship between parties are '' @
     ''outlined with specific performance requirements.\<newline>'' @
     ''   - Liability provisions and risk allocation measures are included to '' @
     ''protect the parties' interests.\<newline>'' @
     ''   - Termination mechanisms and conditions for contract renewal are '' @
     ''specified.\<newline>'' @
     ''\<newline>'' @
     ''3. Rights and Obligations:\<newline>'' @
     ''   - The respective duties of each party are delineated with specific '' @
     ''performance metrics and timelines.\<newline>'' @
     ''   - Compliance requirements with relevant laws and regulations are '' @
     ''established.\<newline>'' @
     ''   - Remedy mechanisms in case of breach are provided with specific '' @
     ''consequences.\<newline>'' @
     ''\<newline>'' @
     ''4. Legal Implications:\<newline>'' @
     ''   - The contract creates legally enforceable rights that can be upheld '' @
     ''through legal proceedings if necessary.\<newline>'' @
     ''   - Under contract law, material breaches may entitle the non-breaching '' @
     ''party to remedies including specific performance or damages.\<newline>'' @
     ''   - Ambiguous terms may be interpreted by courts according to standard '' @
     ''principles of contractual interpretation.''"

definition generate_judgment_analysis :: "string \<Rightarrow> string" where
  "generate_judgment_analysis text =
     ''This document appears to be a legal judgment. Here's a detailed analysis:\<newline>'' @
     ''\<newline>'' @
     ''1. Judicial Findings:\<newline>'' @
     ''   - The court has ruled on specific legal questions presented in the case '' @
     ''with binding authority.\<newline>'' @
     ''   - The judgment contains findings of fact based on evidence presented and '' @
     ''legal conclusions applying relevant law.\<newline>'' @
     ''   - The court's reasoning demonstrates application of legal principles to '' @
     ''the specific circumstances of the case.\<newline>'' @
     ''\<newline>'' @
     ''2. Legal Reasoning and Precedent:\<newline>'' @
     ''   - The court applies established legal principles and cites relevant '' @
     ''statutory provisions and case law.\<newline>'' @
     ''   - The judgment may establish or reinforce legal precedent within the '' @
     ''appropriate jurisdiction.\<newline>'' @
     ''   - The court distinguishes or applies existing case law to develop its '' @
     ''reasoning.\<newline>'' @
     ''\<newline>'' @
     ''3. Relief Granted:\<newline>'' @
     ''   - The court awards specific remedies or relief to the prevailing party.\<newline>'' @
     ''   - The judgment specifies any monetary damages, equitable relief, or '' @
     ''specific performance required.\<newline>'' @
     ''   - Terms for enforcement of the judgment are outlined with timeframes for '' @
     ''compliance.\<newline>'' @
     ''\<newline>'' @
     ''4. Appeal Implications:\<newline>'' @
     ''   - The judgment may be subject to appeal within specified timeframes '' @
     ''according to applicable procedural rules.\<newline>'' @
     ''   - Grounds for potential appeal would typically require identification of '' @
     ''errors in law or procedure.\<newline>'' @
     ''   - The finality of the judgment depends on whether appeal periods have '' @
     ''expired.''"

definition generate_legislation_analysis :: "string \<Rightarrow> string" where
  "generate_legislation_analysis text =
     ''This document appears to be legislation or a statutory instrument. Here's a '' @
     ''detailed analysis:\<newline>'' @
     ''\<newline>'' @
     ''1. Legislative Purpose and Scope:\<newline>'' @
     ''   - The statute establishes legal rules, rights, and obligations within its '' @
     ''defined jurisdiction and subject matter.\<newline>'' @
     ''   - The legislation identifies its purpose and the public policy objectives '' @
     ''it seeks to achieve.\<newline>'' @
     ''   - Jurisdictional boundaries and application scope are defined, including '' @
     ''territorial and temporal limitations.\<newline>'' @
     ''\<newline>'' @
     ''2. Statutory Provisions:\<newline>'' @
     ''   - The legislation contains definitional sections establishing key terms '' @
     ''and concepts for interpretation.\<newline>'' @
     ''   - Substantive provisions create rights, obligations, prohibitions, and '' @
     ''permissions for affected parties.\<newline>'' @
     ''   - Administrative mechanisms and procedural requirements for implementation '' @
     ''are established.\<newline>'' @
     ''\<newline>'' @
     ''3. Compliance Requirements:\<newline>'' @
     ''   - The statute imposes specific compliance obligations on affected '' @
     ''individuals, businesses, or organizations.\<newline>'' @
     ''   - Penalties and enforcement mechanisms for non-compliance are specified '' @
     ''with relevant authorities.\<newline>'' @
     ''   - Transitional provisions may address the relationship between this law '' @
     ''and previous legal frameworks.\<newline>'' @
     ''\<newline>'' @
     ''4. Legal Implications:\<newline>'' @
     ''   - The legislation may preempt or modify existing common law or statutory '' @
     ''provisions in its field.\<newline>'' @
     ''   - Courts will interpret this legislation according to established '' @
     ''principles of statutory interpretation.\<newline>'' @
     ''   - Constitutional or other higher-order legal principles may affect the '' @
     ''interpretation and validity of certain provisions.''"

definition generate_will_analysis :: "string \<Rightarrow> string" where
  "generate_will_analysis text =
     ''This document appears to be a last will and testament. Here's a detailed '' @
     ''analysis:\<newline>'' @
     ''\<newline>'' @
     ''1. Testamentary Capacity and Formalities:\<newline>'' @
     ''   - The document purports to be a valid will expressing the testator's '' @
     ''intentions regarding asset distribution.\<newline>'' @
     ''   - Formal requirements including signature, witnesses, and attestation '' @
     ''clauses appear to be addressed.\<newline>'' @
     ''   - The testator's capacity at the time of execution is a critical factor '' @
     ''for validity.\<newline>'' @
     ''\<newline>'' @
     ''2. Asset Distribution:\<newline>'' @
     ''   - Specific bequests allocate particular assets or amounts to named '' @
     ''beneficiaries.\<newline>'' @
     ''   - Residuary clauses address the distribution of remaining assets not '' @
     ''specifically bequeathed.\<newline>'' @
     ''   - Contingent provisions may address scenarios such as beneficiaries '' @
     ''predeceasing the testator.\<newline>'' @
     ''\<newline>'' @
     ''3. Administration Provisions:\<newline>'' @
     ''   - The will appoints executors/personal representatives with powers to '' @
     ''administer the estate.\<newline>'' @
     ''   - Instructions regarding probate procedures and asset management are '' @
     ''provided.\<newline>'' @
     ''   - Tax considerations and payment of debts and expenses are addressed.\<newline>'' @
     ''\<newline>'' @
     ''4. Legal Implications:\<newline>'' @
     ''   - The will becomes effective upon the testator's death and must be '' @
     ''submitted for probate.\<newline>'' @
     ''   - Potential challenges could arise based on capacity, undue influence, '' @
     ''fraud, or improper execution.\<newline>'' @
     ''   - Applicable succession laws may impact the interpretation and '' @
     ''implementation of the will's provisions.''"

definition generate_affidavit_analysis :: "string \<Rightarrow> string" where
  "generate_affidavit_analysis text =
     ''This document appears to be an affidavit. Here's a detailed analysis:\<newline>'' @
     ''\<newline>'' @
     ''1. Purpose and Structure:\<newline>'' @
     ''   - This sworn statement is made for official legal purposes and carries '' @
     ''potential perjury consequences if false.\<newline>'' @
     ''   - The document identifies the deponent (affiant) and establishes their '' @
     ''competence to make the statements.\<newline>'' @
     ''   - The affidavit follows standard format requirements with proper '' @
     ''verification clauses.\<newline>'' @
     ''\<newline>'' @
     ''2. Factual Assertions:\<newline>'' @
     ''   - The deponent makes specific factual declarations under oath based on '' @
     ''personal knowledge or information and belief.\<newline>'' @
     ''   - Supporting exhibits or documents may be referenced and incorporated into '' @
     ''the affidavit.\<newline>'' @
     ''   - The statements are made with the understanding of their legal '' @
     ''significance in proceedings.\<newline>'' @
     ''\<newline>'' @
     ''3. Authentication:\<newline>'' @
     ''   - The affidavit contains notarial or other official authentication '' @
     ''verifying the deponent's identity.\<newline>'' @
     ''   - Proper execution through signature and oath or affirmation is essential '' @
     ''to validity.\<newline>'' @
     ''   - The document follows jurisdictional requirements for affidavit '' @
     ''formalities.\<newline>'' @
     ''\<newline>'' @
     ''4. Legal Implications:\<newline>'' @
     ''   - The affidavit constitutes evidence that may be used in legal proceedings '' @
     ''subject to applicable rules.\<newline>'' @
     ''   - False statements could expose the deponent to criminal penalties for '' @
     ''perjury or false swearing.\<newline>'' @
     ''   - The affidavit's weight as evidence may depend on factors such as '' @
     ''specificity, corroboration, and credibility.''"

definition generate_notice_analysis :: "string \<Rightarrow> string" where
  "generate_notice_analysis text =
     ''This document appears to be a legal notice. Here's a detailed analysis:\<newline>'' @
     ''\<newline>'' @
     ''1. Purpose and Type:\<newline>'' @
     ''   - The notice serves to formally inform specific parties of legal rights, '' @
     ''obligations, or actions.\<newline>'' @
     ''   - It establishes formal communication for procedural or substantive legal '' @
     ''purposes.\<newline>'' @
     ''   - The notice type (e.g., demand, statutory, termination) determines its '' @
     ''specific legal effect.\<newline>'' @
     ''\<newline>'' @
     ''2. Content Requirements:\<newline>'' @
     ''   - The notice identifies relevant parties, subject matter, and the legal '' @
     ''basis for the communication.\<newline>'' @
     ''   - Specific legal requirements for content appear to be addressed based on '' @
     ''the notice type.\<newline>'' @
     ''   - Time-sensitive information and deadlines are stated with appropriate '' @
     ''specificity.\<newline>'' @
     ''\<newline>'' @
     ''3. Service and Delivery:\<newline>'' @
     ''   - The method of delivery is designed to satisfy legal requirements for '' @
     ''effective notice.\<newline>'' @
     ''   - Documentation of service may be required to establish proper notice was '' @
     ''given.\<newline>'' @
     ''   - Timing requirements for advance notice appear to be addressed.\<newline>'' @
     ''\<newline>'' @
     ''4. Legal Implications:\<newline>'' @
     ''   - The notice triggers legal consequences, rights, or obligations specified '' @
     ''by relevant law.\<newline>'' @
     ''   - Failure to respond appropriately may result in default or waiver of '' @
     ''certain rights.\<newline>'' @
     ''   - The notice may be a prerequisite for subsequent legal proceedings or '' @
     ''actions.''"

definition generate_legal_opinion_analysis :: "string \<Rightarrow> string" where
  "generate_legal_opinion_analysis text =
     ''This document appears to be a legal opinion. Here's a detailed analysis:\<newline>'' @
     ''\<newline>'' @
     ''1. Structure and Purpose:\<newline>'' @
     ''   - This document provides professional legal analysis on specific questions '' @
     ''or scenarios.\<newline>'' @
     ''   - It identifies the requesting party, relevant facts, and legal questions '' @
     ''presented.\<newline>'' @
     ''   - The opinion serves to guide decision-making based on legal risk '' @
     ''assessment.\<newline>'' @
     ''\<newline>'' @
     ''2. Legal Analysis:\<newline>'' @
     ''   - The opinion applies relevant statutory provisions, case law, and legal '' @
     ''principles to the specific scenario.\<newline>'' @
     ''   - Alternative interpretations and potential outcomes are evaluated with '' @
     ''probability assessments.\<newline>'' @
     ''   - Legal authorities are cited to support the reasoning and conclusions '' @
     ''reached.\<newline>'' @
     ''\<newline>'' @
     ''3. Risk Assessment:\<newline>'' @
     ''   - The opinion identifies legal risks, ambiguities, and potential '' @
     ''challenges to the proposed course of action.\<newline>'' @
     ''   - Recommendations for risk mitigation strategies are provided based on the '' @
     ''legal analysis.\<newline>'' @
     ''   - Limitations and assumptions underlying the analysis are explicitly '' @
     ''stated.\<newline>'' @
     ''\<newline>'' @
     ''4. Legal Implications:\<newline>'' @
     ''   - While the opinion provides guidance, ultimate decision-making '' @
     ''responsibility remains with the client.\<newline>'' @
     ''   - The opinion may establish a basis for the 'advice of counsel' defense in '' @
     ''certain circumstances.\<newline>'' @
     ''   - The analysis is time-specific and subject to change based on legal '' @
     ''developments or factual changes.''"

definition generate_mou_analysis :: "string \<Rightarrow> string" where
  "generate_mou_analysis text =
     ''This document appears to be a Memorandum of Understanding (MOU). Here's a '' @
     ''detailed analysis:\<newline>'' @
     ''\<newline>'' @
     ''1. Nature and Enforceability:\<newline>'' @
     ''   - This document establishes a preliminary framework for a relationship '' @
     ''between the parties.\<newline>'' @
     ''   - The MOU may contain both binding and non-binding provisions depending on '' @
     ''specific language used.\<newline>'' @
     ''   - Its enforceability depends on whether essential elements of a contract '' @
     ''are present and the parties' intent.\<newline>'' @
     ''\<newline>'' @
     ''2. Key Components:\<newline>'' @
     ''   - The document outlines the parties' shared understanding and objectives '' @
     ''for potential collaboration.\<newline>'' @
     ''   - Preliminary terms, responsibilities, and contributions of each party are '' @
     ''identified.\<newline>'' @
     ''   - The framework for developing a formal agreement may be established with '' @
     ''timelines.\<newline>'' @
     ''\<newline>'' @
     ''3. Limitations and Conditions:\<newline>'' @
     ''   - Conditional language may limit legal obligations pending further '' @
     ''negotiation or due diligence.\<newline>'' @
     ''   - Confidentiality provisions and intellectual property protections may be '' @
     ''legally binding.\<newline>'' @
     ''   - Termination provisions outline how parties may exit the preliminary '' @
     ''relationship.\<newline>'' @
     ''\<newline>'' @
     ''4. Legal Implications:\<newline>'' @
     ''   - Courts may enforce certain provisions if they demonstrate the parties' '' @
     ''intent to be bound.\<newline>'' @
     ''   - Even if not fully enforceable, the MOU may create liability under '' @
     ''doctrines such as promissory estoppel if relied upon.\<newline>'' @
     ''   - The MOU may establish good faith negotiation obligations toward a '' @
     ''definitive agreement.''"


definition decimal_digit :: "nat \<Rightarrow> char" where
  "decimal_digit d = ''0123456789'' ! d"

fun str_of_nat :: "nat \<Rightarrow> string" where
  "str_of_nat n =
     (if n < 10 then [decimal_digit n] else str_of_nat (n div 10) @ [decimal_digit (n mod 10)])"

declare str_of_nat.simps [simp del]

fun numbered :: "nat \<Rightarrow> string list \<Rightarrow> string" where
  \<comment> \<open>the lines \<^verbatim>\<open>f"{i}. {law}\n"\<close> for \<^verbatim>\<open>enumerate(applicable_laws, i)\<close>\<close>
  "numbered i [] = []"
| "numbered i (law # laws) = str_of_nat i @ ''. '' @ law @ ''\<newline>'' @ numbered (Suc i) laws"

definition document_analysis :: "string \<Rightarrow> string \<Rightarrow> string" where
  \<comment> \<open>the chain of comparisons that selects the text for the document type\<close>
  "document_analysis doc_type text =
     (if doc_type = ''contract'' then generate_contract_analysis text
      else if doc_type = ''judgment'' then generate_judgment_analysis text
      else if doc_type = ''legislation'' then generate_legislation_analysis text
      else if doc_type = ''will'' then generate_will_analysis text
      else if doc_type = ''affidavit'' then generate_affidavit_analysis text
      else if doc_type = ''notice'' then generate_notice_analysis text
      else if doc_type = ''legal_opinion'' then generate_legal_opinion_analysis text
      else if doc_type = ''mou'' then generate_mou_analysis text
      else generic_analysis)"

definition generate_legal_analysis ::
  "rng \<Rightarrow> string \<Rightarrow> string \<Rightarrow> py_error + string \<times> rng"
where
  "generate_legal_analysis g doc_type text =
     (let analysis = document_analysis doc_type text in
      case get_applicable_laws g doc_type ''india'' of
        Inl e \<Rightarrow> Inl e
      | Inr (applicable_laws, g') \<Rightarrow>
          (let analysis =
                 (if applicable_laws \<noteq> []
                  then analysis @ frameworks_heading @ numbered 1 applicable_laws
                  else analysis)
           in Inr (analysis @ disclaimer, g')))"

definition claimed_disclaimer :: string where
  \<comment> \<open>the sentence that the specification quotes as the end of every analysis\<close>
  "claimed_disclaimer =
     ''DISCLAIMER: This analysis is provided for informational purposes only and '' @
     ''should not be construed as legal advice.''"

section \<open>Translation with a cache\<close>

text \<open>
  \<^verbatim>\<open>handle_translation_request\<close> reads and writes the fields of the assistant and talks to
  the outside: the translation model, the cache file and the audio file. The fields are
  the record \<open>assistant\<close>; what the outside does during one call is the record
  \<open>world\<close>. The field \<open>events\<close> is a log: it records the calls to the outside in their
  order and marks which branch of the function ran (\<open>CacheHit\<close>, \<open>DictionaryFallback\<close>).
  The two phrase tables of the function hold translations in many scripts; they are a
  parameter, and the texts are only compared, searched and concatenated.
\<close>

datatype event =
    CacheHit
  | LoadModel
  | NeuralTranslate string string
  | DictionaryFallback
  | SaveCache "(string \<times> string) list"
  | WriteAudio string

record assistant =
  translation_cache :: "(string \<times> string) list"
  translation_model :: bool
  cache_file :: "(string \<times> string) list"
  events :: "event list"

record world =
  transformers_available :: bool
  load_succeeds :: bool
  generate :: "string \<Rightarrow> string \<Rightarrow> string option"
  save_succeeds :: bool
  audio_succeeds :: bool
  now :: string

record phrase_tables =
  analysis_translations :: "(string \<times> (string \<times> string) list) list"
  sample_phrases :: "(string \<times> (string \<times> string) list) list"

record response =
  translated_text :: string
  source_text :: string
  source_lang :: string
  target_lang :: string
  audio_response :: string

definition language_code_map :: "(string \<times> string) list" where
  "language_code_map =
     [(''en'', ''eng_Latn''), (''hi'', ''hin_Deva''), (''bn'', ''ben_Beng''), (''te'', ''tel_Telu''),
      (''mr'', ''mar_Deva''), (''ta'', ''tam_Taml''), (''ur'', ''urd_Arab''), (''gu'', ''guj_Gujr''),
      (''kn'', ''kan_Knda''), (''ml'', ''mal_Mlym''), (''or'', ''ory_Orya''), (''pa'', ''pan_Guru''),
      (''as'', ''asm_Beng''), (''mai'', ''mai_Deva''), (''sat'', ''sat_Olck''), (''ks'', ''kas_Arab''),
      (''ne'', ''npi_Deva''), (''sd'', ''snd_Arab''), (''kok'', ''kok_Deva''), (''doi'', ''doi_Deva''),
      (''mni'', ''mni_Beng''), (''sa'', ''san_Deva''), (''bo'', ''bod_Tibt'')]"

fun contains :: "string \<Rightarrow> string \<Rightarrow> bool" where
  \<comment> \<open>\<^verbatim>\<open>needle in text\<close>\<close>
  "contains needle [] = (needle = [])"
| "contains needle (c # cs) = (prefix needle (c # cs) \<or> contains needle cs)"

fun replace_from :: "string \<Rightarrow> string \<Rightarrow> string \<Rightarrow> string" where
  "replace_from old new [] = []"
| "replace_from old new (c # cs) =
     (if prefix old (c # cs) then new @ replace_from old new (drop (length old - 1) cs)
      else c # replace_from old new cs)"

definition str_replace :: "string \<Rightarrow> string \<Rightarrow> string \<Rightarrow> string" where
  \<comment> \<open>\<^verbatim>\<open>s.replace(old, new)\<close>: every occurrence, left to right, without overlap\<close>
  "str_replace s old new =
     (if old = [] then new @ concat (map (\<lambda>c. c # new) s) else replace_from old new s)"

definition replace_all :: "(string \<times> string) list \<Rightarrow> string \<Rightarrow> string" where
  \<comment> \<open>the loop over \<^verbatim>\<open>phrases.items()\<close> that replaces one phrase after the other\<close>
  "replace_all phrases s = fold (\<lambda>kv t. str_replace t (fst kv) (snd kv)) phrases s"

definition load_translation_model :: "world \<Rightarrow> assistant \<Rightarrow> bool \<times> assistant" where
  "load_translation_model w a =
     (if \<not> transformers_available w then (False, a)
      else if translation_model a then (True, a)
      else if load_succeeds w
        then (True, a\<lparr>translation_model := True, events := events a @ [LoadModel]\<rparr>)
        else (False, a\<lparr>events := events a @ [LoadModel]\<rparr>))"

definition neural_translation :: "world \<Rightarrow> assistant \<Rightarrow> string \<Rightarrow> string \<Rightarrow> string \<times> assistant" where
  \<comment> \<open>the attempt with the model; an exception of the model gives the empty text\<close>
  "neural_translation w a text lang =
     (case load_translation_model w a of
        (False, a') \<Rightarrow> ('''', a')
      | (True, a') \<Rightarrow>
          (case dict_get language_code_map lang of
             None \<Rightarrow> ('''', a')
           | Some target_lang_code \<Rightarrow>
               if target_lang_code = '''' then ('''', a')
               else (case generate w text target_lang_code of None \<Rightarrow> '''' | Some t \<Rightarrow> t,
                     a'\<lparr>events := events a' @ [NeuralTranslate text target_lang_code]\<rparr>)))"

definition dictionary_translation :: "phrase_tables \<Rightarrow> string \<Rightarrow> string \<Rightarrow> string" where
  "dictionary_translation tb text lang =
     (case dict_get (sample_phrases tb) lang of
        None \<Rightarrow> ''''
      | Some phrases \<Rightarrow>
          if contains ''This document appears to be a legal contract'' text \<and>
             contains ''Here's a detailed analysis'' text
          then (let translated = replace_all phrases text in
                case dict_get (analysis_translations tb) lang of
                  None \<Rightarrow> translated
                | Some section_translations \<Rightarrow> replace_all section_translations translated)
          else (case dict_get phrases text of
                  Some t \<Rightarrow> t
                | None \<Rightarrow>
                    (let temp_text = replace_all phrases text in
                     if temp_text \<noteq> text then temp_text else '''')))"

definition save_translation_cache :: "world \<Rightarrow> assistant \<Rightarrow> assistant" where
  \<comment> \<open>a failure to write the file is caught and printed\<close>
  "save_translation_cache w a =
     (let a' = a\<lparr>events := events a @ [SaveCache (translation_cache a)]\<rparr> in
      if save_succeeds w then a'\<lparr>cache_file := translation_cache a\<rparr> else a')"

definition fresh_translation ::
  "phrase_tables \<Rightarrow> world \<Rightarrow> assistant \<Rightarrow> string \<Rightarrow> string \<Rightarrow> string \<times> assistant"
where
  \<comment> \<open>the text produced when the key is not in the cache: the model, then the dictionary\<close>
  "fresh_translation tb w a text lang =
     (case neural_translation w a text lang of
        (translated, a') \<Rightarrow>
          if translated = ''''
          then (dictionary_translation tb text lang, a'\<lparr>events := events a' @ [DictionaryFallback]\<rparr>)
          else (translated, a'))"

definition successful :: "string \<Rightarrow> bool" where
  \<comment> \<open>\<^verbatim>\<open>translated_text and not translated_text.startswith("[Translation")\<close>\<close>
  "successful translated = (translated \<noteq> [] \<and> \<not> prefix ''[Translation'' translated)"

definition store_translation :: "world \<Rightarrow> assistant \<Rightarrow> string \<Rightarrow> string \<Rightarrow> assistant" where
  \<comment> \<open>the step after a miss: a successful translation goes into the cache\<close>
  "store_translation w a cache_key translated =
     (if successful translated
      then (let a' = a\<lparr>translation_cache := AList.update cache_key translated (translation_cache a)\<rparr>
            in if length (translation_cache a') mod 10 = 0 then save_translation_cache w a' else a')
      else a)"

definition cache_key_of :: "string \<Rightarrow> string \<Rightarrow> string" where
  "cache_key_of text lang = text @ ''_'' @ lang"

definition handle_translation_request ::
  "phrase_tables \<Rightarrow> world \<Rightarrow> assistant \<Rightarrow> string \<Rightarrow> string \<Rightarrow> (py_error + response) \<times> assistant"
where
  "handle_translation_request tb w a text lang =
     (let cache_key = cache_key_of text lang;
          (translated, a1) =
            (case dict_get (translation_cache a) cache_key of
               Some cached \<Rightarrow> (cached, a\<lparr>events := events a @ [CacheHit]\<rparr>)
             | None \<Rightarrow>
                 (case fresh_translation tb w a text lang of
                    (t, a') \<Rightarrow> (t, store_translation w a' cache_key t)));
          translated = (if translated = '''' then placeholder else translated);
          audio_path = ''temp/translated_'' @ lang @ ''_'' @ now w @ ''.wav''
      in if audio_succeeds w
         then (Inr \<lparr>translated_text = translated, source_text = text, source_lang = ''en'',
                    target_lang = lang, audio_response = audio_path\<rparr>,
               a1\<lparr>events := events a1 @ [WriteAudio audio_path]\<rparr>)
         else (Inl OSError, a1))"

definition saves :: "event list \<Rightarrow> (string \<times> string) list list" where
  \<comment> \<open>the cache contents of the saves in a log, in their order\<close>
  "saves evs = concat (map (\<lambda>e. case e of SaveCache c \<Rightarrow> [c] | _ \<Rightarrow> []) evs)"

text \<open>Sample values for running the function: small phrase tables, two worlds, a new assistant.\<close>

definition demo_tables :: phrase_tables where
  "demo_tables =
     \<lparr>analysis_translations = [],
      sample_phrases = [(''hi'', [(''Legal document'', ''kanuni dastavez'')])]\<rparr>"

definition offline_world :: world where
  \<comment> \<open>the transformers library is not installed\<close>
  "offline_world =
     \<lparr>transformers_available = False, load_succeeds = False, generate = (\<lambda>text code. None),
      save_succeeds = True, audio_succeeds = True, now = ''20240101120000''\<rparr>"

definition online_world :: world where
  \<comment> \<open>the model is there and answers every request\<close>
  "online_world =
     \<lparr>transformers_available = True, load_succeeds = True,
      generate = (\<lambda>text code. Some ''model output''),
      save_succeeds = True, audio_succeeds = True, now = ''20240101120500''\<rparr>"

definition new_assistant :: assistant where
  "new_assistant = \<lparr>translation_cache = [], translation_model = False, cache_file = [], events = []\<rparr>"

definition nine_entries :: "(string \<times> string) list" where
  "nine_entries = map (\<lambda>c. ([c], ''x'')) ''123456789''"

section \<open>Classification: results\<close>

text \<open>
  Claim C1 says that classifying the empty string returns \<open>unknown\<close> with confidence 0
  and raises nothing. The code divides the number of matches by
  \<^verbatim>\<open>len(text.split()) / 100\<close>, which is 0 for the empty string, in the first round of
  its loop: the call raises \<^verbatim>\<open>ZeroDivisionError\<close>.
\<close>

theorem identify_empty_raises:
  "identify_document_type '''' = Inl ZeroDivisionError"
  by (simp add: identify_document_type_def document_patterns_def str_split_def truediv_def)

text \<open>
  The loop over the pattern table. Without a word in the text the first division raises;
  with one, the loop stores the capped score of every pattern, in the order of the table.
\<close>

lemma update_fresh: "k \<notin> fst ` set al \<Longrightarrow> AList.update k v al = al @ [(k, v)]"
  by (induction al) auto

lemma score_loop_no_words:
  "str_split text = [] \<Longrightarrow> ps \<noteq> [] \<Longrightarrow> score_loop ps text acc = Inl ZeroDivisionError"
  by (cases ps) (simp_all add: truediv_def)

lemma score_loop_words:
  assumes "str_split text \<noteq> []"
  shows "distinct (map fst ps) \<Longrightarrow> fst ` set ps \<inter> fst ` set acc = {} \<Longrightarrow>
    score_loop ps text acc = Inr (acc @ map (\<lambda>kp. (fst kp, capped_score text (snd kp))) ps)"
proof (induction ps arbitrary: acc)
  case Nil
  then show ?case by simp
next
  case (Cons kp ps)
  have fresh: "fst kp \<notin> fst ` set acc" using Cons.prems(2) by auto
  have nz: "real (length (str_split text)) / 100 \<noteq> 0" using assms by simp
  have d: "distinct (map fst ps)" using Cons.prems(1) by simp
  have disj: "fst ` set ps \<inter> fst ` set (acc @ [(fst kp, capped_score text (snd kp))]) = {}"
    using Cons.prems by auto
  show ?case
    using Cons.IH [OF d disj] nz
    by (simp add: truediv_def Let_def update_fresh [OF fresh] capped_score_def)
qed

lemma max_from_inv:
  assumes "\<forall>x \<in> set (b # xs). key x = Some (f x)"
    and "\<forall>x \<in> set d1. f x < f b" and "\<forall>x \<in> set d2. f x \<le> f b"
  shows "\<exists>m pre post. max_from key b xs = Inr m \<and> d1 @ b # d2 @ xs = pre @ m # post \<and>
     (\<forall>x \<in> set pre. f x < f m) \<and> (\<forall>x \<in> set post. f x \<le> f m)"
  using assms
proof (induction xs arbitrary: b d1 d2)
  case Nil
  then show ?case by auto
next
  case (Cons x xs)
  show ?case
  proof (cases "f b < f x")
    case True
    have step: "max_from key b (x # xs) = max_from key x xs"
      using Cons.prems(1) True by simp
    have "\<exists>m pre post. max_from key x xs = Inr m \<and> (d1 @ b # d2) @ x # [] @ xs = pre @ m # post \<and>
       (\<forall>y \<in> set pre. f y < f m) \<and> (\<forall>y \<in> set post. f y \<le> f m)"
      using Cons.prems True by (intro Cons.IH) (auto intro: less_le_trans le_less_trans less_trans)
    then show ?thesis using step by simp
  next
    case False
    have step: "max_from key b (x # xs) = max_from key b xs"
      using Cons.prems(1) False by simp
    have "\<exists>m pre post. max_from key b xs = Inr m \<and> d1 @ b # (d2 @ [x]) @ xs = pre @ m # post \<and>
       (\<forall>y \<in> set pre. f y < f m) \<and> (\<forall>y \<in> set post. f y \<le> f m)"
      using Cons.prems False by (intro Cons.IH) auto
    then show ?thesis using step by simp
  qed
qed

lemma py_max_first:
  assumes "xs \<noteq> []" "\<forall>x \<in> set xs. key x = Some (f x)"
  shows "\<exists>m pre post. py_max xs key = Inr m \<and> xs = pre @ m # post \<and>
     (\<forall>x \<in> set pre. f x < f m) \<and> (\<forall>x \<in> set post. f x \<le> f m)"
proof -
  from assms(1) obtain b rest where xs: "xs = b # rest" by (cases xs) auto
  have "\<exists>m pre post. max_from key b rest = Inr m \<and> [] @ b # [] @ rest = pre @ m # post \<and>
     (\<forall>x \<in> set pre. f x < f m) \<and> (\<forall>x \<in> set post. f x \<le> f m)"
    using assms(2) xs by (intro max_from_inv) auto
  then show ?thesis using xs by (simp add: py_max_def)
qed


lemma document_keys:
  "map fst document_patterns =
     [''contract'', ''judgment'', ''legislation'', ''will'', ''affidavit'', ''notice'',
      ''legal_opinion'', ''mou'']"
  by (simp add: document_patterns_def)

lemma best_of_scores:
  assumes d: "distinct (map fst scores)" and ne: "scores \<noteq> []"
  shows "\<exists>k v pre post. py_max (dict_keys scores) (dict_get scores) = Inr k \<and>
     dict_get scores k = Some v \<and> scores = pre @ (k, v) # post \<and>
     (\<forall>kv \<in> set pre. snd kv < v) \<and> (\<forall>kv \<in> set post. snd kv \<le> v)"
proof -
  define f where "f k = the (map_of scores k)" for k
  have val: "f (fst kv) = snd kv \<and> map_of scores (fst kv) = Some (snd kv)" if "kv \<in> set scores" for kv
  proof -
    have "map_of scores (fst kv) = Some (snd kv)" using that d by (intro map_of_is_SomeI) auto
    then show ?thesis by (simp add: f_def)
  qed
  have keys: "\<forall>k \<in> set (dict_keys scores). dict_get scores k = Some (f k)"
    using val by (auto simp: dict_keys_def dict_get_def)
  have "dict_keys scores \<noteq> []" using ne by (simp add: dict_keys_def)
  from py_max_first [OF this keys] obtain m pk qk where
    pm: "py_max (dict_keys scores) (dict_get scores) = Inr m" and
    ks: "dict_keys scores = pk @ m # qk" and
    lt: "\<forall>x \<in> set pk. f x < f m" and le: "\<forall>x \<in> set qk. f x \<le> f m" by blast
  from ks obtain pre rest where sp: "scores = pre @ rest" "pk = map fst pre" "m # qk = map fst rest"
    unfolding dict_keys_def by (auto simp: map_eq_append_conv)
  then obtain kv post where r: "rest = kv # post" "m = fst kv" "qk = map fst post"
    by (cases rest) auto
  have kvin: "kv \<in> set scores" using sp r by simp
  have fm: "f m = snd kv" using val [OF kvin] r by simp
  have "dict_get scores m = Some (snd kv)" using val [OF kvin] r by (simp add: dict_get_def)
  moreover have "scores = pre @ (m, snd kv) # post" using sp r by simp
  moreover have "\<forall>x \<in> set pre. snd x < snd kv"
  proof
    fix x assume x: "x \<in> set pre"
    then have "x \<in> set scores" using sp by simp
    from val [OF this] lt x sp fm show "snd x < snd kv" by auto
  qed
  moreover have "\<forall>x \<in> set post. snd x \<le> snd kv"
  proof
    fix x assume x: "x \<in> set post"
    then have "x \<in> set scores" using sp r by simp
    from val [OF this] le x r fm show "snd x \<le> snd kv" by auto
  qed
  ultimately show ?thesis using pm by blast
qed

lemma identify_no_words:
  "str_split text = [] \<Longrightarrow> identify_document_type text = Inl ZeroDivisionError"
proof -
  assume "str_split text = []"
  moreover have "document_patterns \<noteq> []" by (simp add: document_patterns_def)
  ultimately have "score_loop document_patterns text [] = Inl ZeroDivisionError"
    by (rule score_loop_no_words)
  then show ?thesis by (simp add: identify_document_type_def)
qed

lemma identify_words:
  assumes "str_split text \<noteq> []"
  shows "\<exists>k v pre post. identify_document_type text = Inr (k, v) \<and>
     map (\<lambda>kp. (fst kp, capped_score text (snd kp))) document_patterns = pre @ (k, v) # post \<and>
     (\<forall>kv \<in> set pre. snd kv < v) \<and> (\<forall>kv \<in> set post. snd kv \<le> v)"
proof -
  let ?scores = "map (\<lambda>kp. (fst kp, capped_score text (snd kp))) document_patterns"
  have dk: "distinct (map fst document_patterns)" by (simp add: document_keys)
  have loop: "score_loop document_patterns text [] = Inr ?scores"
    using score_loop_words [OF assms dk, of "[]"] by simp
  have ne: "?scores \<noteq> []" by (simp add: document_patterns_def)
  have ds: "distinct (map fst ?scores)" using dk by (simp add: comp_def)
  from best_of_scores [OF ds ne] obtain k v pre post where
    b: "py_max (dict_keys ?scores) (dict_get ?scores) = Inr k" "dict_get ?scores k = Some v"
       "?scores = pre @ (k, v) # post" "\<forall>kv \<in> set pre. snd kv < v" "\<forall>kv \<in> set post. snd kv \<le> v"
    by blast
  have "identify_document_type text = Inr (k, v)"
    using loop ne b(1,2) by (simp add: identify_document_type_def)
  with b show ?thesis by blast
qed

lemma identify_returns_iff:
  "(\<exists>r. identify_document_type text = Inr r) \<longleftrightarrow> str_split text \<noteq> []"
  using identify_no_words [of "text"] identify_words [of "text"] by (cases "str_split text = []") auto

lemma capped_score_range: "0 \<le> capped_score text pat \<and> capped_score text pat \<le> 1"
  by (simp add: capped_score_def)


text \<open>Two evaluations: a text that two patterns match equally, and one that none matches.\<close>

lemma eval_hereby: "identify_document_type ''hereby'' = Inr (''contract'', 1)"
  by code_simp

lemma scores_hereby:
  "map (\<lambda>kp. (fst kp, capped_score ''hereby'' (snd kp))) document_patterns =
     [(''contract'', 1), (''judgment'', 0), (''legislation'', 0), (''will'', 0),
      (''affidavit'', 0), (''notice'', 1), (''legal_opinion'', 0), (''mou'', 0)]"
  by code_simp

lemma eval_xyz: "identify_document_type ''xyz'' = Inr (''contract'', 0)"
  by code_simp

lemma no_match_xyz:
  "map (\<lambda>kp. findall (snd kp) ''xyz'') document_patterns = [[], [], [], [], [], [], [], []]"
  by code_simp

text \<open>
  Claim C2: for every text, the confidence returned by the classification lies in the
  closed interval from 0 to 1. (The classification returns exactly for the texts with at
  least one word, by \<open>identify_returns_iff\<close>.)
\<close>

theorem identify_confidence_in_unit_interval:
  assumes "identify_document_type text = Inr (doc_type, confidence)"
  shows "0 \<le> confidence \<and> confidence \<le> 1"
proof -
  have w: "str_split text \<noteq> []" using assms identify_no_words [of "text"] by auto
  from identify_words [OF w] assms obtain pre post where
    "map (\<lambda>kp. (fst kp, capped_score text (snd kp))) document_patterns =
       pre @ (doc_type, confidence) # post" by auto
  then have "(doc_type, confidence) \<in>
      set (map (\<lambda>kp. (fst kp, capped_score text (snd kp))) document_patterns)" by simp
  then obtain kp where "confidence = capped_score text (snd kp)" by auto
  then show ?thesis using capped_score_range by simp
qed

theorem identify_confidence_witness:
  "identify_document_type ''hereby'' = Inr (''contract'', 1) \<and> (0::real) \<le> 1 \<and> (1::real) \<le> 1"
  using identify_confidence_in_unit_interval [OF eval_hereby] eval_hereby by simp

text \<open>
  Claim C3: the classification selects the type with the highest capped score, and among
  the types with that score the first in the order of the pattern table (contract,
  judgment, legislation, will, affidavit, notice, legal_opinion, mou): every type before
  the selected one has a strictly smaller score, every type after it a score that is not
  greater.
\<close>

theorem identify_picks_first_maximum:
  assumes "identify_document_type text = Inr (best_type, confidence)"
  shows "map fst document_patterns =
       [''contract'', ''judgment'', ''legislation'', ''will'', ''affidavit'', ''notice'',
        ''legal_opinion'', ''mou''] \<and>
     (\<exists>before after.
        map (\<lambda>kp. (fst kp, capped_score text (snd kp))) document_patterns =
          before @ (best_type, confidence) # after \<and>
        (\<forall>kv \<in> set before. snd kv < confidence) \<and>
        (\<forall>kv \<in> set after. snd kv \<le> confidence))"
proof -
  have w: "str_split text \<noteq> []" using assms identify_no_words [of "text"] by auto
  from identify_words [OF w] assms show ?thesis by (auto simp: document_keys)
qed

theorem identify_first_maximum_witness:
  "identify_document_type ''hereby'' = Inr (''contract'', 1) \<and>
   map (\<lambda>kp. (fst kp, capped_score ''hereby'' (snd kp))) document_patterns =
     [(''contract'', 1), (''judgment'', 0), (''legislation'', 0), (''will'', 0),
      (''affidavit'', 0), (''notice'', 1), (''legal_opinion'', 0), (''mou'', 0)] \<and>
   (\<exists>before after.
      map (\<lambda>kp. (fst kp, capped_score ''hereby'' (snd kp))) document_patterns =
        before @ (''contract'', 1) # after \<and>
      (\<forall>kv \<in> set before. snd kv < 1) \<and> (\<forall>kv \<in> set after. snd kv \<le> 1))"
proof -
  note t = identify_picks_first_maximum [OF eval_hereby]
  from t have e: "\<exists>before after.
      map (\<lambda>kp. (fst kp, capped_score ''hereby'' (snd kp))) document_patterns =
        before @ (''contract'', 1) # after \<and>
      (\<forall>kv \<in> set before. snd kv < 1) \<and> (\<forall>kv \<in> set after. snd kv \<le> 1)"
    by (rule conjunct2)
  show ?thesis by (intro conjI eval_hereby scores_hereby e)
qed

text \<open>
  Claim C10: whenever the classification returns, the type is one of the eight keys of the
  pattern table and never \<open>unknown\<close>; the loop has stored eight scores, so the branch for
  an empty score table is not taken; and a text that no pattern matches is classified as
  \<open>contract\<close>, the first key, with confidence 0.
\<close>

theorem identify_never_unknown:
  assumes "identify_document_type text = Inr (doc_type, confidence)"
  shows "doc_type \<in> set (map fst document_patterns) \<and> doc_type \<noteq> ''unknown'' \<and>
     (\<exists>scores. score_loop document_patterns text [] = Inr scores \<and> length scores = 8) \<and>
     ((\<forall>kp \<in> set document_patterns. findall (snd kp) text = []) \<longrightarrow>
        doc_type = ''contract'' \<and> confidence = 0)"
proof -
  let ?scores = "map (\<lambda>kp. (fst kp, capped_score text (snd kp))) document_patterns"
  have w: "str_split text \<noteq> []" using assms identify_no_words [of "text"] by auto
  from identify_words [OF w] assms obtain pre post where
    sp: "?scores = pre @ (doc_type, confidence) # post" and
    lt: "\<forall>kv \<in> set pre. snd kv < confidence" by auto
  have "doc_type \<in> fst ` set ?scores" using sp by (metis fst_conv image_eqI in_set_conv_decomp)
  then have mem: "doc_type \<in> set (map fst document_patterns)" by (auto simp: image_iff)
  then have nu: "doc_type \<noteq> ''unknown''" by (auto simp: document_keys)
  have dk: "distinct (map fst document_patterns)" by (simp add: document_keys)
  have loop: "score_loop document_patterns text [] = Inr ?scores"
    using score_loop_words [OF w dk, of "[]"] by simp
  have len: "length ?scores = 8" by (simp add: document_patterns_def)
  have zero: "doc_type = ''contract'' \<and> confidence = 0"
    if none: "\<forall>kp \<in> set document_patterns. findall (snd kp) text = []"
  proof -
    have all0: "\<forall>kv \<in> set ?scores. snd kv = 0"
      using none by (auto simp: capped_score_def)
    have c0: "confidence = 0" using all0 sp by (metis in_set_conv_decomp snd_conv)
    have "pre = []"
    proof (cases pre)
      case Nil then show ?thesis .
    next
      case (Cons a list)
      then have "a \<in> set ?scores" using sp by (metis append_Cons list.set_intros(1))
      with all0 have "snd a = 0" by blast
      moreover have "snd a < confidence" using lt Cons by simp
      ultimately show ?thesis using c0 by simp
    qed
    with sp have "hd ?scores = (doc_type, confidence)" by simp
    then have "doc_type = ''contract''" by (simp add: document_patterns_def)
    with c0 show ?thesis by simp
  qed
  show ?thesis using mem nu loop len zero by blast
qed

theorem identify_never_unknown_witness:
  "identify_document_type ''xyz'' = Inr (''contract'', 0) \<and>
   map (\<lambda>kp. findall (snd kp) ''xyz'') document_patterns = [[], [], [], [], [], [], [], []] \<and>
   ''contract'' \<in> set (map fst document_patterns) \<and> ''contract'' \<noteq> ''unknown'' \<and>
   (\<exists>scores. score_loop document_patterns ''xyz'' [] = Inr scores \<and> length scores = 8)"
proof -
  note t = identify_never_unknown [OF eval_xyz]
  have none: "\<forall>kp \<in> set document_patterns. findall (snd kp) ''xyz'' = []"
  proof
    fix kp assume "kp \<in> set document_patterns"
    then have "findall (snd kp) ''xyz'' \<in> set (map (\<lambda>kp. findall (snd kp) ''xyz'') document_patterns)"
      by simp
    then show "findall (snd kp) ''xyz'' = []" unfolding no_match_xyz by simp
  qed
  from t none have "''contract'' = ''contract'' \<and> (0::real) = 0" by blast
  from t show ?thesis by (intro conjI eval_xyz no_match_xyz) blast+
qed

section \<open>Entity extraction: results\<close>

lemma no_entities_contract: "all_entities '''' ''contract'' = []"
  by code_simp

lemma no_entities_judgment: "all_entities '''' ''judgment'' = []"
  by code_simp

lemma no_entities_common: "concat (map (matches_of '''') patterns) = []"
  by code_simp

lemma no_entities: "all_entities '''' doc_type = []"
proof (cases "doc_type = ''contract''")
  case True
  then show ?thesis by (simp add: no_entities_contract)
next
  case False
  show ?thesis
  proof (cases "doc_type = ''judgment''")
    case True
    then show ?thesis by (simp add: no_entities_judgment)
  next
    case j: False
    then show ?thesis using False
      by (simp add: all_entities_def patterns_for_def no_entities_common)
  qed
qed

text \<open>
  Claim C4: for every text and document type the extraction returns at most 20 entries:
  it cuts the whole list of matches, over all categories together, to its first 20. The
  model of the function has no error result, since nothing in it can raise; without a
  match, as for the empty text, the result is the empty list.
\<close>

theorem extract_at_most_twenty:
  "length (extract_legal_entities text doc_type) \<le> 20 \<and>
   extract_legal_entities text doc_type = take 20 (all_entities text doc_type) \<and>
   extract_legal_entities '''' doc_type = []"
  by (simp add: extract_legal_entities_def no_entities)

text \<open>The cut is over all categories: eleven amounts and eleven percentages give 20 entries.\<close>

lemma extract_cut_is_global:
  "map entity (extract_legal_entities
      ''$1%$1%$1%$1%$1%$1%$1%$1%$1%$1%$1%'' ''unknown'') =
     replicate 11 ''MONEY'' @ replicate 9 ''PERCENTAGE''"
  by code_simp

lemma extract_contact:
  "extract_legal_entities
     ''Contact John Smith at john.smith@example.com or call 555-123-4567'' ''unknown'' =
     [\<lparr>word = ''Contact John Smith'', entity = ''PERSON''\<rparr>,
      \<lparr>word = ''555-123-4567'', entity = ''PHONE''\<rparr>,
      \<lparr>word = ''john.smith@example.com'', entity = ''EMAIL''\<rparr>]"
  by code_simp

text \<open>
  Claim C6 says that for this text the result holds a PERSON entry with the text
  \<open>John Smith\<close>. The person pattern takes two or three capitalised words in a row, and
  the search finds \<open>Contact John Smith\<close> first: no entry has the text \<open>John Smith\<close>.
\<close>

theorem extract_contact_counterexample:
  "\<lparr>word = ''John Smith'', entity = ''PERSON''\<rparr> \<notin>
     set (extract_legal_entities
       ''Contact John Smith at john.smith@example.com or call 555-123-4567'' ''unknown'')"
  by (simp add: extract_contact)

text \<open>
  Claim C6 as amended: for this text and the document type \<open>unknown\<close> the result is
  exactly three entries, in this order: a PERSON entry with the text
  \<open>Contact John Smith\<close>, a PHONE entry with the text \<open>555-123-4567\<close> and an EMAIL entry
  with the text \<open>john.smith@example.com\<close>.
\<close>

theorem extract_contact_entities:
  "extract_legal_entities
     ''Contact John Smith at john.smith@example.com or call 555-123-4567'' ''unknown'' =
     [\<lparr>word = ''Contact John Smith'', entity = ''PERSON''\<rparr>,
      \<lparr>word = ''555-123-4567'', entity = ''PHONE''\<rparr>,
      \<lparr>word = ''john.smith@example.com'', entity = ''EMAIL''\<rparr>]"
  by (rule extract_contact)

section \<open>Applicable laws: results\<close>

text \<open>
  One round of the sampling loop takes an item out of the part of the pool that is still
  in play, so the items drawn are a sub-multiset of the population: they come from
  different positions of it.
\<close>

lemma take_swap_mset:
  assumes "j < m" "m \<le> length pool"
  shows "add_mset (pool ! j) (mset (take (m - 1) (pool[j := pool ! (m - 1)]))) = mset (take m pool)"
proof -
  from assms obtain n where m: "m = Suc n" by (cases m) auto
  have n: "n < length pool" using assms m by simp
  have tk: "take (Suc n) pool = take n pool @ [pool ! n]"
    using n by (simp add: take_Suc_conv_app_nth)
  show ?thesis
  proof (cases "j = n")
    case True
    then show ?thesis using m tk by simp
  next
    case False
    then have j: "j < n" using assms m by simp
    have "mset (take n (pool[j := pool ! n])) =
        add_mset (pool ! n) (mset (take n pool) - {#pool ! j#})"
      using j n by (simp add: take_update_swap mset_update)
    moreover have "pool ! j \<in># mset (take n pool)"
      using j n by (simp add: in_set_conv_nth) (metis length_take min.absorb2 nat_less_le nth_take)
    ultimately show ?thesis using m tk by simp
  qed
qed

lemma sample_loop_sub:
  "k \<le> m \<Longrightarrow> m \<le> length pool \<Longrightarrow> sample_loop pool m k g = (res, g') \<Longrightarrow>
     length res = k \<and> mset res \<subseteq># mset (take m pool)"
proof (induction k arbitrary: pool m g res g')
  case 0
  then show ?case by simp
next
  case (Suc k)
  let ?j = "shd g mod m"
  let ?pool = "pool[?j := pool ! (m - 1)]"
  from Suc.prems(1) have mpos: "0 < m" by simp
  then have j: "?j < m" by simp
  obtain rest g2 where r: "sample_loop ?pool (m - 1) k (stl g) = (rest, g2)"
    by (cases "sample_loop ?pool (m - 1) k (stl g)")
  have res: "res = pool ! ?j # rest" using Suc.prems(3) r by (simp add: randbelow_def)
  have "length rest = k \<and> mset rest \<subseteq># mset (take (m - 1) ?pool)"
    using Suc.prems by (intro Suc.IH [OF _ _ r]) auto
  moreover have "add_mset (pool ! ?j) (mset (take (m - 1) ?pool)) = mset (take m pool)"
    using j Suc.prems(2) by (rule take_swap_mset)
  ultimately show ?case
    using res by (metis length_Cons mset.simps(2) mset_subset_eq_add_mset_cancel)
qed

lemma random_sample_sub:
  assumes "k \<le> length population"
  shows "\<exists>res g'. random_sample population k g = Inr (res, g') \<and> length res = k \<and>
     mset res \<subseteq># mset population"
proof -
  obtain res g' where r: "sample_loop population (length population) k g = (res, g')"
    by (cases "sample_loop population (length population) k g")
  from sample_loop_sub [OF assms _ r]
  have "length res = k \<and> mset res \<subseteq># mset population" by simp
  then show ?thesis using assms r by (simp add: random_sample_def)
qed

lemma categories_cases: "categories_of d \<in> set ([] # map snd category_map)"
proof (cases "map_of category_map d")
  case None
  then show ?thesis by (simp add: categories_of_def dict_get_def)
next
  case (Some cs)
  then have "(d, cs) \<in> set category_map" by (rule map_of_SomeD)
  then have "cs \<in> snd ` set category_map" by force
  then show ?thesis using Some by (simp add: categories_of_def dict_get_def)
qed

lemma jurisdiction_cases: "jurisdiction_data j \<in> set ([] # map snd legal_frameworks)"
proof (cases "map_of legal_frameworks j")
  case None
  then show ?thesis by (simp add: jurisdiction_data_def dict_get_def)
next
  case (Some jd)
  then have "(j, jd) \<in> set legal_frameworks" by (rule map_of_SomeD)
  then have "jd \<in> snd ` set legal_frameworks" by force
  then show ?thesis using Some by (simp add: jurisdiction_data_def dict_get_def)
qed

lemma all_tables_distinct:
  "\<forall>jd \<in> set ([] # map snd legal_frameworks). \<forall>cs \<in> set ([] # map snd category_map).
     distinct (extend_laws jd cs [])"
  by code_simp

lemma collected_distinct: "distinct (collected_laws d j)"
  using all_tables_distinct categories_cases [of d] jurisdiction_cases [of j]
  unfolding collected_laws_def by blast

lemma extend_laws_no_data: "extend_laws [] cs acc = acc"
  by (induction cs arbitrary: acc) (simp_all add: dict_get_def)

lemma collected_empty:
  "dict_get legal_frameworks j = None \<or> categories_of d = [] \<Longrightarrow> collected_laws d j = []"
  by (auto simp: collected_laws_def jurisdiction_data_def extend_laws_no_data)

lemma distinct_sub:
  assumes s: "mset xs \<subseteq># mset ys" and d: "distinct ys"
  shows "distinct xs"
proof -
  have le1: "count (mset xs) a \<le> 1" for a
  proof -
    have "count (mset xs) a \<le> count (mset ys) a" using s by (rule mset_subset_eq_count)
    also have "\<dots> \<le> 1" using d by (simp add: distinct_count_atmost_1)
    finally show ?thesis .
  qed
  have "count (mset xs) a = (if a \<in> set xs then 1 else 0)" for a
  proof (cases "a \<in> set xs")
    case True
    then have "1 \<le> count (mset xs) a" by (simp add: Suc_le_eq)
    with le1 [of a] have "count (mset xs) a = 1" by (rule le_antisym)
    with True show ?thesis by simp
  next
    case False
    then show ?thesis by (simp add: count_mset_0_iff)
  qed
  then show ?thesis by (simp add: distinct_count_atmost_1)
qed

lemma get_applicable_laws_cases:
  "\<exists>laws g'. get_applicable_laws g d j = Inr (laws, g') \<and>
     (length (collected_laws d j) \<le> 3 \<longrightarrow> laws = collected_laws d j \<and> g' = g) \<and>
     (3 < length (collected_laws d j) \<longrightarrow>
        length laws = 3 \<and> mset laws \<subseteq># mset (collected_laws d j))"
proof (cases "3 < length (collected_laws d j)")
  case True
  then have "3 \<le> length (collected_laws d j)" by simp
  from random_sample_sub [OF this, of g] obtain res g' where
    "random_sample (collected_laws d j) 3 g = Inr (res, g')" "length res = 3"
    "mset res \<subseteq># mset (collected_laws d j)" by blast
  with True show ?thesis by (simp add: get_applicable_laws_def)
next
  case False
  then show ?thesis by (simp add: get_applicable_laws_def)
qed

lemmas laws_eval = get_applicable_laws_def collected_laws_def jurisdiction_data_def
  categories_of_def dict_get_def legal_frameworks_def category_map_def random_sample_def

lemma sample_loop_three:
  "sample_loop pool m 3 g =
     (let j0 = shd g mod m; p1 = pool[j0 := pool ! (m - 1)];
          j1 = shd (stl g) mod (m - 1); p2 = p1[j1 := p1 ! (m - 1 - 1)];
          j2 = shd (stl (stl g)) mod (m - 1 - 1)
      in ([pool ! j0, p1 ! j1, p2 ! j2], stl (stl (stl g))))"
  by (simp add: numeral_3_eq_3 randbelow_def Let_def)

lemma laws_contract_india_draws:
  assumes "shd g = 0" "shd (stl g) = 0" "shd (stl (stl g)) = 0"
  shows "get_applicable_laws g ''contract'' ''india'' =
     Inr ([''Code of Civil Procedure, 1908'', ''Foreign Exchange Management Act, 1999'',
           ''Competition Act, 2002''], stl (stl (stl g)))"
  using assms by (simp add: laws_eval sample_loop_three)

lemma laws_contract_india:
  "get_applicable_laws (sconst 0) ''contract'' ''india'' =
     Inr ([''Code of Civil Procedure, 1908'', ''Foreign Exchange Management Act, 1999'',
           ''Competition Act, 2002''], sconst 0)"
  using laws_contract_india_draws [of "sconst 0"] by simp
lemma collected_contract_india:
  "collected_laws ''contract'' ''india'' =
     [''Code of Civil Procedure, 1908'', ''Indian Contract Act, 1872'',
      ''Transfer of Property Act, 1882'', ''Specific Relief Act, 1963'',
      ''Indian Evidence Act, 1872'', ''Companies Act, 2013'',
      ''Insolvency and Bankruptcy Code, 2016'', ''Competition Act, 2002'',
      ''Foreign Exchange Management Act, 1999'']"
  by (simp add: laws_eval)

lemma laws_mou_us:
  "get_applicable_laws g ''mou'' ''us'' =
     Inr ([''Securities Act of 1933'', ''Securities Exchange Act of 1934'',
           ''Sarbanes-Oxley Act''], g)"
  by (simp add: laws_eval)

lemma laws_unknown_jurisdiction: "get_applicable_laws g ''contract'' ''uk'' = Inr ([], g)"
  by (simp add: laws_eval)

lemma laws_legislation: "get_applicable_laws g ''legislation'' ''india'' = Inr ([], g)"
  by (simp add: laws_eval)

text \<open>For a contract under the law of India: three laws of the civil and commercial lists.\<close>

lemma laws_contract_india_any:
  "\<exists>laws g'. get_applicable_laws g ''contract'' ''india'' = Inr (laws, g') \<and> length laws = 3 \<and>
     set laws \<subseteq> set (collected_laws ''contract'' ''india'')"
proof -
  have "3 < length (collected_laws ''contract'' ''india'')"
    by (simp add: collected_contract_india)
  with get_applicable_laws_cases [of g "''contract''" "''india''"] show ?thesis
    by (auto dest: set_mset_mono)
qed

text \<open>
  Claim C9: for every document type and jurisdiction the selection of laws returns without
  an error; it returns the empty list when the jurisdiction is not in the table of
  frameworks or the type has no categories (as \<open>legislation\<close>); it returns the whole
  concatenated list when that has at most three entries; otherwise it returns three
  entries taken from different positions of the concatenated list.
\<close>

theorem get_applicable_laws_result:
  "\<exists>laws g'. get_applicable_laws g doc_type jurisdiction = Inr (laws, g') \<and>
     (dict_get legal_frameworks jurisdiction = None \<or> categories_of doc_type = [] \<longrightarrow>
        laws = []) \<and>
     categories_of ''legislation'' = [] \<and>
     (length (collected_laws doc_type jurisdiction) \<le> 3 \<longrightarrow>
        laws = collected_laws doc_type jurisdiction \<and> g' = g) \<and>
     (3 < length (collected_laws doc_type jurisdiction) \<longrightarrow>
        length laws = 3 \<and> distinct laws \<and>
        mset laws \<subseteq># mset (collected_laws doc_type jurisdiction))"
proof -
  from get_applicable_laws_cases [of g doc_type jurisdiction] obtain laws g' where
    r: "get_applicable_laws g doc_type jurisdiction = Inr (laws, g')" and
    small: "length (collected_laws doc_type jurisdiction) \<le> 3 \<longrightarrow>
        laws = collected_laws doc_type jurisdiction \<and> g' = g" and
    large: "3 < length (collected_laws doc_type jurisdiction) \<longrightarrow>
        length laws = 3 \<and> mset laws \<subseteq># mset (collected_laws doc_type jurisdiction)"
    by blast
  have empty: "dict_get legal_frameworks jurisdiction = None \<or> categories_of doc_type = [] \<longrightarrow>
      laws = []"
    using collected_empty [of jurisdiction doc_type] small by auto
  have leg: "categories_of ''legislation'' = []"
    by (simp add: categories_of_def dict_get_def category_map_def)
  have dist: "3 < length (collected_laws doc_type jurisdiction) \<longrightarrow> distinct laws"
    using large collected_distinct [of doc_type jurisdiction] by (auto intro: distinct_sub)
  show ?thesis using r empty leg small large dist by blast
qed

theorem get_applicable_laws_witness:
  "get_applicable_laws (sconst 0) ''contract'' ''india'' =
     Inr ([''Code of Civil Procedure, 1908'', ''Foreign Exchange Management Act, 1999'',
           ''Competition Act, 2002''], sconst 0) \<and>
   3 < length (collected_laws ''contract'' ''india'') \<and>
   get_applicable_laws (sconst 0) ''mou'' ''us'' =
     Inr ([''Securities Act of 1933'', ''Securities Exchange Act of 1934'',
           ''Sarbanes-Oxley Act''], sconst 0) \<and>
   length (collected_laws ''mou'' ''us'') \<le> 3 \<and>
   get_applicable_laws (sconst 0) ''contract'' ''uk'' = Inr ([], sconst 0) \<and>
   dict_get legal_frameworks ''uk'' = None \<and>
   get_applicable_laws (sconst 0) ''legislation'' ''india'' = Inr ([], sconst 0) \<and>
   categories_of ''legislation'' = []"
proof -
  have leg: "categories_of ''legislation'' = []"
    using get_applicable_laws_result [of "sconst 0" "''contract''" "''india''"]
    by (elim exE conjE)
  have big: "3 < length (collected_laws ''contract'' ''india'')"
    by (simp add: collected_contract_india)
  have small: "length (collected_laws ''mou'' ''us'') \<le> 3"
    by (simp add: collected_laws_def jurisdiction_data_def categories_of_def dict_get_def
        legal_frameworks_def category_map_def)
  have uk: "dict_get legal_frameworks ''uk'' = None"
    by (simp add: dict_get_def legal_frameworks_def)
  show ?thesis
    by (intro conjI laws_contract_india big laws_mou_us small laws_unknown_jurisdiction uk
        laws_legislation leg)
qed

section \<open>Analysis text: results\<close>

lemma disclaimer_parts:
  "disclaimer = ''\<newline>\<newline>'' @ claimed_disclaimer @
     '' Please consult with a qualified legal professional for advice specific to your situation.''"
  by (simp add: disclaimer_def claimed_disclaimer_def)

lemma claimed_not_suffix_of_disclaimer: "\<not> suffix claimed_disclaimer disclaimer"
  by (simp add: suffix_to_prefix disclaimer_def claimed_disclaimer_def)

lemma claimed_shorter: "length claimed_disclaimer < length disclaimer"
  by (simp add: disclaimer_def claimed_disclaimer_def)

lemma claimed_not_suffix: "\<not> suffix claimed_disclaimer (body @ disclaimer)"
proof
  assume "suffix claimed_disclaimer (body @ disclaimer)"
  then have "suffix claimed_disclaimer disclaimer \<or>
      (\<exists>xs. claimed_disclaimer = xs @ disclaimer \<and> suffix xs body)"
    by (simp add: suffix_append)
  then show False
  proof
    assume "suffix claimed_disclaimer disclaimer"
    then show False using claimed_not_suffix_of_disclaimer by simp
  next
    assume "\<exists>xs. claimed_disclaimer = xs @ disclaimer \<and> suffix xs body"
    then obtain xs where "claimed_disclaimer = xs @ disclaimer" by blast
    then have "length disclaimer \<le> length claimed_disclaimer"
      by (metis length_append le_add2)
    then show False using claimed_shorter by simp
  qed
qed

lemma claimed_sublist: "sublist claimed_disclaimer (body @ disclaimer)"
proof -
  have "body @ disclaimer = (body @ ''\<newline>\<newline>'') @ claimed_disclaimer @
     '' Please consult with a qualified legal professional for advice specific to your situation.''"
    by (subst disclaimer_parts) simp
  then show ?thesis unfolding sublist_def by blast
qed

lemma analysis_shape:
  "\<exists>body g'. generate_legal_analysis g doc_type text = Inr (body @ disclaimer, g')"
proof -
  from get_applicable_laws_cases [of g doc_type "''india''"] obtain laws g' where
    "get_applicable_laws g doc_type ''india'' = Inr (laws, g')" by blast
  then have "generate_legal_analysis g doc_type text =
      Inr ((if laws \<noteq> []
            then document_analysis doc_type text @ frameworks_heading @ numbered 1 laws
            else document_analysis doc_type text) @ disclaimer, g')"
    by (simp add: generate_legal_analysis_def Let_def)
  then show ?thesis by blast
qed

lemma analysis_unknown:
  "generate_legal_analysis (sconst 0) ''unknown'' '''' =
     Inr (generic_analysis @ disclaimer, sconst 0)"
  by (simp add: generate_legal_analysis_def document_analysis_def laws_eval)

text \<open>
  Claim C5 says that the analysis text ends with the sentence \<open>claimed_disclaimer\<close>. The
  disclaimer that the code appends goes on after that sentence, so the sentence is not a
  suffix of the text: here for the document type \<open>unknown\<close>.
\<close>

theorem analysis_suffix_counterexample:
  "generate_legal_analysis (sconst 0) ''unknown'' '''' =
     Inr (generic_analysis @ disclaimer, sconst 0) \<and>
   \<not> suffix claimed_disclaimer (generic_analysis @ disclaimer)"
  using analysis_unknown claimed_not_suffix [of generic_analysis] by simp

text \<open>
  Claim C5 as amended: for every document type and text the analysis is returned without
  an error and ends with the whole disclaimer paragraph of the code (two line breaks, the
  quoted sentence, and the sentence that asks to consult a legal professional); the
  quoted sentence occurs in the text but is not its end.
\<close>

theorem analysis_ends_with_disclaimer:
  "\<exists>analysis g'. generate_legal_analysis g doc_type text = Inr (analysis, g') \<and>
     suffix disclaimer analysis \<and>
     disclaimer = ''\<newline>\<newline>'' @ claimed_disclaimer @
       '' Please consult with a qualified legal professional for advice specific to your situation.'' \<and>
     sublist claimed_disclaimer analysis \<and> \<not> suffix claimed_disclaimer analysis"
proof -
  from analysis_shape [of g doc_type "text"] obtain body g' where
    r: "generate_legal_analysis g doc_type text = Inr (body @ disclaimer, g')" by blast
  have "suffix disclaimer (body @ disclaimer)" by (rule suffix_appendI) simp
  with r disclaimer_parts claimed_sublist [of body] claimed_not_suffix [of body]
  show ?thesis by blast
qed

section \<open>Translation: results\<close>

lemma saves_append: "saves (xs @ ys) = saves xs @ saves ys"
  by (simp add: saves_def)

lemma load_model_effect:
  "load_translation_model w a = (b, a') \<Longrightarrow>
     translation_cache a' = translation_cache a \<and>
     (\<exists>evs. events a' = events a @ evs \<and> saves evs = [])"
  by (auto simp: load_translation_model_def saves_def split: if_splits)

lemma neural_effect:
  assumes "neural_translation w a text lang = (t, a')"
  shows "translation_cache a' = translation_cache a \<and>
     (\<exists>evs. events a' = events a @ evs \<and> saves evs = [])"
proof -
  obtain b a1 where l: "load_translation_model w a = (b, a1)"
    by (cases "load_translation_model w a")
  from load_model_effect [OF l] obtain evs where
    c: "translation_cache a1 = translation_cache a" and
    e: "events a1 = events a @ evs" "saves evs = []" by blast
  have "translation_cache a' = translation_cache a1 \<and>
     (events a' = events a1 \<or> (\<exists>x y. events a' = events a1 @ [NeuralTranslate x y]))"
    using assms l by (auto simp: neural_translation_def split: bool.splits option.splits if_splits)
  then show ?thesis using c e by (auto simp: saves_def)
qed

lemma fresh_effect:
  assumes "fresh_translation tb w a text lang = (t, a')"
  shows "translation_cache a' = translation_cache a \<and>
     (\<exists>evs. events a' = events a @ evs \<and> saves evs = [])"
proof -
  obtain t1 a1 where n: "neural_translation w a text lang = (t1, a1)"
    by (cases "neural_translation w a text lang")
  from neural_effect [OF n] obtain evs where
    c: "translation_cache a1 = translation_cache a" and
    e: "events a1 = events a @ evs" "saves evs = []" by blast
  have "translation_cache a' = translation_cache a1 \<and>
     (events a' = events a1 \<or> events a' = events a1 @ [DictionaryFallback])"
    using assms n by (auto simp: fresh_translation_def split: if_splits)
  then show ?thesis using c e by (auto simp: saves_def)
qed

lemma update_new_key:
  "map_of al k = None \<Longrightarrow> AList.update k v al = al @ [(k, v)]"
  by (induction al) (auto split: if_splits)

lemma store_effect:
  assumes miss: "dict_get (translation_cache a) key = None"
  shows "events (store_translation w a key t) = events a @
       (if successful t \<and> (length (translation_cache a) + 1) mod 10 = 0
        then [SaveCache (translation_cache a @ [(key, t)])] else []) \<and>
     translation_cache (store_translation w a key t) =
       (if successful t then translation_cache a @ [(key, t)] else translation_cache a)"
  using miss
  by (simp add: store_translation_def save_translation_cache_def Let_def dict_get_def
      update_new_key)

lemma placeholder_prefix: "prefix ''[Translation'' placeholder"
  by (simp add: placeholder_def)

text \<open>What one call does to the cache and to the log, for a hit and for a miss.\<close>

lemma handle_hit:
  assumes hit: "dict_get (translation_cache a) (cache_key_of text lang) = Some v"
    and res: "handle_translation_request tb w a text lang = (r, a2)"
  shows "translation_cache a2 = translation_cache a \<and>
     events a2 = events a @ CacheHit #
       (if audio_succeeds w then [WriteAudio (''temp/translated_'' @ lang @ ''_'' @ now w @ ''.wav'')]
        else []) \<and>
     (if audio_succeeds w
      then \<exists>resp. r = Inr resp \<and> translated_text resp = (if v = [] then placeholder else v)
      else r = Inl OSError)"
  using hit res by (auto simp: handle_translation_request_def Let_def split: if_splits)

lemma handle_miss:
  assumes miss: "dict_get (translation_cache a) (cache_key_of text lang) = None"
    and fresh: "fresh_translation tb w a text lang = (t, a1)"
    and res: "handle_translation_request tb w a text lang = (r, a2)"
  shows "translation_cache a2 =
       (if successful t then translation_cache a @ [(cache_key_of text lang, t)]
        else translation_cache a) \<and>
     (\<exists>new. events a2 = events a @ new \<and>
        saves new = (if successful t \<and> length (translation_cache a2) mod 10 = 0
                     then [translation_cache a2] else [])) \<and>
     (if audio_succeeds w
      then \<exists>resp. r = Inr resp \<and> translated_text resp = (if t = [] then placeholder else t)
      else r = Inl OSError)"
proof -
  from fresh_effect [OF fresh] obtain evs where
    c: "translation_cache a1 = translation_cache a" and
    e: "events a1 = events a @ evs" "saves evs = []" by blast
  have miss1: "dict_get (translation_cache a1) (cache_key_of text lang) = None"
    using miss c by simp
  let ?s = "store_translation w a1 (cache_key_of text lang) t"
  note st = store_effect [OF miss1, of w t]
  have a2: "a2 = (if audio_succeeds w
      then ?s\<lparr>events := events ?s @ [WriteAudio (''temp/translated_'' @ lang @ ''_'' @ now w @ ''.wav'')]\<rparr>
      else ?s)"
    using miss fresh res by (auto simp: handle_translation_request_def Let_def split: if_splits)
  have cache: "translation_cache a2 =
       (if successful t then translation_cache a @ [(cache_key_of text lang, t)]
        else translation_cache a)"
    using a2 st c by simp
  have ev: "events a2 = events a @ (evs @
       (if successful t \<and> (length (translation_cache a1) + 1) mod 10 = 0
        then [SaveCache (translation_cache a1 @ [(cache_key_of text lang, t)])] else []) @
       (if audio_succeeds w
        then [WriteAudio (''temp/translated_'' @ lang @ ''_'' @ now w @ ''.wav'')] else []))"
    using a2 st e by simp
  have sv: "saves (evs @
       (if successful t \<and> (length (translation_cache a1) + 1) mod 10 = 0
        then [SaveCache (translation_cache a1 @ [(cache_key_of text lang, t)])] else []) @
       (if audio_succeeds w
        then [WriteAudio (''temp/translated_'' @ lang @ ''_'' @ now w @ ''.wav'')] else [])) =
     (if successful t \<and> length (translation_cache a2) mod 10 = 0
      then [translation_cache a2] else [])"
    using e(2) cache c by (simp add: saves_append) (simp add: saves_def)
  have r: "if audio_succeeds w
      then \<exists>resp. r = Inr resp \<and> translated_text resp = (if t = [] then placeholder else t)
      else r = Inl OSError"
    using miss fresh res by (auto simp: handle_translation_request_def Let_def split: if_splits)
  show ?thesis using cache ev sv r by blast
qed

lemmas translate_eval = handle_translation_request_def fresh_translation_def
  neural_translation_def load_translation_model_def dictionary_translation_def
  store_translation_def save_translation_cache_def successful_def cache_key_of_def
  dict_get_def replace_all_def str_replace_def language_code_map_def Let_def
  demo_tables_def offline_world_def online_world_def new_assistant_def nine_entries_def

lemma first_call:
  "handle_translation_request demo_tables offline_world new_assistant ''Legal document'' ''hi'' =
     (Inr \<lparr>translated_text = ''kanuni dastavez'', source_text = ''Legal document'',
           source_lang = ''en'', target_lang = ''hi'',
           audio_response = ''temp/translated_hi_20240101120000.wav''\<rparr>,
      \<lparr>translation_cache = [(''Legal document_hi'', ''kanuni dastavez'')],
       translation_model = False, cache_file = [],
       events = [DictionaryFallback, WriteAudio ''temp/translated_hi_20240101120000.wav'']\<rparr>)"
  by (simp add: translate_eval)

lemma second_call:
  "handle_translation_request demo_tables online_world
     \<lparr>translation_cache = [(''Legal document_hi'', ''kanuni dastavez'')],
      translation_model = False, cache_file = [],
      events = [DictionaryFallback, WriteAudio ''temp/translated_hi_20240101120000.wav'']\<rparr>
     ''Legal document'' ''hi'' =
     (Inr \<lparr>translated_text = ''kanuni dastavez'', source_text = ''Legal document'',
           source_lang = ''en'', target_lang = ''hi'',
           audio_response = ''temp/translated_hi_20240101120500.wav''\<rparr>,
      \<lparr>translation_cache = [(''Legal document_hi'', ''kanuni dastavez'')],
       translation_model = False, cache_file = [],
       events = [DictionaryFallback, WriteAudio ''temp/translated_hi_20240101120000.wav'',
                 CacheHit, WriteAudio ''temp/translated_hi_20240101120500.wav'']\<rparr>)"
  by (simp add: translate_eval)

lemma cold_call_online:
  "handle_translation_request demo_tables online_world new_assistant ''Legal document'' ''hi'' =
     (Inr \<lparr>translated_text = ''model output'', source_text = ''Legal document'',
           source_lang = ''en'', target_lang = ''hi'',
           audio_response = ''temp/translated_hi_20240101120500.wav''\<rparr>,
      \<lparr>translation_cache = [(''Legal document_hi'', ''model output'')],
       translation_model = True, cache_file = [],
       events = [LoadModel, NeuralTranslate ''Legal document'' ''hin_Deva'',
                 WriteAudio ''temp/translated_hi_20240101120500.wav'']\<rparr>)"
  by (simp add: translate_eval)

lemma tenth_call:
  "handle_translation_request demo_tables offline_world
     (new_assistant\<lparr>translation_cache := nine_entries\<rparr>) ''Legal document'' ''hi'' =
     (Inr \<lparr>translated_text = ''kanuni dastavez'', source_text = ''Legal document'',
           source_lang = ''en'', target_lang = ''hi'',
           audio_response = ''temp/translated_hi_20240101120000.wav''\<rparr>,
      \<lparr>translation_cache = nine_entries @ [(''Legal document_hi'', ''kanuni dastavez'')],
       translation_model = False,
       cache_file = nine_entries @ [(''Legal document_hi'', ''kanuni dastavez'')],
       events = [DictionaryFallback,
                 SaveCache (nine_entries @ [(''Legal document_hi'', ''kanuni dastavez'')]),
                 WriteAudio ''temp/translated_hi_20240101120000.wav'']\<rparr>)"
  by (simp add: translate_eval)

lemma tenth_fresh:
  "fresh_translation demo_tables offline_world
     (new_assistant\<lparr>translation_cache := nine_entries\<rparr>) ''Legal document'' ''hi'' =
     (''kanuni dastavez'', new_assistant\<lparr>translation_cache := nine_entries,
        events := [DictionaryFallback]\<rparr>)"
  by (simp add: translate_eval)

text \<open>
  Claim C7: when a call has produced a translation that is not a placeholder, a second
  call with the same text and language, whatever the model and the tables would now
  answer, takes the cache branch: its part of the log is the cache hit and the audio file
  only, with no load of the model, no request to it and no dictionary fallback, and it
  returns the same translated text (unless writing its audio file fails).
\<close>

theorem second_call_hits_cache:
  assumes first: "handle_translation_request tb w a text lang = (Inr resp1, a1)"
    and ok: "\<not> prefix ''[Translation'' (translated_text resp1)"
    and second: "handle_translation_request tb2 w2 a1 text lang = (r2, a2)"
  shows "events a2 = events a1 @ CacheHit #
       (if audio_succeeds w2
        then [WriteAudio (''temp/translated_'' @ lang @ ''_'' @ now w2 @ ''.wav'')] else []) \<and>
     translation_cache a2 = translation_cache a1 \<and>
     (if audio_succeeds w2
      then \<exists>resp2. r2 = Inr resp2 \<and> translated_text resp2 = translated_text resp1
      else r2 = Inl OSError)"
proof -
  let ?key = "cache_key_of text lang"
  let ?t = "translated_text resp1"
  have np: "?t \<noteq> placeholder" using ok placeholder_prefix by auto
  have warm: "dict_get (translation_cache a1) ?key = Some ?t \<and> ?t \<noteq> []"
  proof (cases "dict_get (translation_cache a) ?key")
    case None
    obtain t a' where fresh: "fresh_translation tb w a text lang = (t, a')"
      by (cases "fresh_translation tb w a text lang")
    note m = handle_miss [OF None fresh first]
    have aud: "audio_succeeds w" using m by (auto split: if_splits)
    with m have tt: "?t = (if t = [] then placeholder else t)" by auto
    with np have t: "t = ?t" "t \<noteq> []" by (auto split: if_splits)
    then have "successful t" using ok by (simp add: successful_def)
    with m have "translation_cache a1 = translation_cache a @ [(?key, t)]" by simp
    then show ?thesis using None t by (simp add: dict_get_def map_add_def)
  next
    case (Some v)
    note h = handle_hit [OF Some first]
    have aud: "audio_succeeds w" using h by (auto split: if_splits)
    with h have "?t = (if v = [] then placeholder else v)" by auto
    with np have "v = ?t" "v \<noteq> []" by (auto split: if_splits)
    then show ?thesis using h Some by simp
  qed
  then have w1: "dict_get (translation_cache a1) ?key = Some ?t" and ne: "?t \<noteq> []"
    by simp_all
  from handle_hit [OF w1 second] ne show ?thesis by (cases "audio_succeeds w2") simp_all
qed

theorem second_call_hits_cache_witness:
  "handle_translation_request demo_tables offline_world new_assistant ''Legal document'' ''hi'' =
     (Inr \<lparr>translated_text = ''kanuni dastavez'', source_text = ''Legal document'',
           source_lang = ''en'', target_lang = ''hi'',
           audio_response = ''temp/translated_hi_20240101120000.wav''\<rparr>,
      \<lparr>translation_cache = [(''Legal document_hi'', ''kanuni dastavez'')],
       translation_model = False, cache_file = [],
       events = [DictionaryFallback, WriteAudio ''temp/translated_hi_20240101120000.wav'']\<rparr>) \<and>
   \<not> prefix ''[Translation'' ''kanuni dastavez'' \<and>
   handle_translation_request demo_tables online_world
     \<lparr>translation_cache = [(''Legal document_hi'', ''kanuni dastavez'')],
      translation_model = False, cache_file = [],
      events = [DictionaryFallback, WriteAudio ''temp/translated_hi_20240101120000.wav'']\<rparr>
     ''Legal document'' ''hi'' =
     (Inr \<lparr>translated_text = ''kanuni dastavez'', source_text = ''Legal document'',
           source_lang = ''en'', target_lang = ''hi'',
           audio_response = ''temp/translated_hi_20240101120500.wav''\<rparr>,
      \<lparr>translation_cache = [(''Legal document_hi'', ''kanuni dastavez'')],
       translation_model = False, cache_file = [],
       events = [DictionaryFallback, WriteAudio ''temp/translated_hi_20240101120000.wav'',
                 CacheHit, WriteAudio ''temp/translated_hi_20240101120500.wav'']\<rparr>) \<and>
   fst (handle_translation_request demo_tables online_world new_assistant
     ''Legal document'' ''hi'') =
     Inr \<lparr>translated_text = ''model output'', source_text = ''Legal document'',
          source_lang = ''en'', target_lang = ''hi'',
          audio_response = ''temp/translated_hi_20240101120500.wav''\<rparr>"
proof -
  have ok: "\<not> prefix ''[Translation''
      (translated_text \<lparr>translated_text = ''kanuni dastavez'', source_text = ''Legal document'',
           source_lang = ''en'', target_lang = ''hi'',
           audio_response = ''temp/translated_hi_20240101120000.wav''\<rparr>)" by simp
  note t = second_call_hits_cache [OF first_call ok second_call]
  have np: "\<not> prefix ''[Translation'' ''kanuni dastavez''" by simp
  have cold: "fst (handle_translation_request demo_tables online_world new_assistant
     ''Legal document'' ''hi'') =
     Inr \<lparr>translated_text = ''model output'', source_text = ''Legal document'',
          source_lang = ''en'', target_lang = ''hi'',
          audio_response = ''temp/translated_hi_20240101120500.wav''\<rparr>"
    by (simp add: cold_call_online)
  from t show ?thesis by (intro conjI first_call np second_call cold)
qed

text \<open>
  Claim C8: after a miss, a successful translation (not empty, not starting with
  \<open>[Translation\<close>) is put into the cache under the key made of the text and the language,
  as a new last entry, and the cache file is saved in that call exactly when the cache
  then has a multiple of 10 entries; a translation that is not successful is not put into
  the cache and no save happens.
\<close>

theorem successful_translation_cached:
  assumes res: "handle_translation_request tb w a text lang = (r, a2)"
    and miss: "dict_get (translation_cache a) (cache_key_of text lang) = None"
    and fresh: "fresh_translation tb w a text lang = (t, a1)"
  shows "(if successful t
      then translation_cache a2 = translation_cache a @ [(cache_key_of text lang, t)] \<and>
           dict_get (translation_cache a2) (cache_key_of text lang) = Some t
      else translation_cache a2 = translation_cache a) \<and>
     (\<exists>new. events a2 = events a @ new \<and>
        saves new = (if successful t \<and> length (translation_cache a2) mod 10 = 0
                     then [translation_cache a2] else []))"
proof -
  note m = handle_miss [OF miss fresh res]
  have "successful t \<Longrightarrow> dict_get (translation_cache a2) (cache_key_of text lang) = Some t"
    using m miss by (simp add: dict_get_def map_add_def)
  with m show ?thesis by auto
qed

theorem successful_translation_cached_witness:
  "handle_translation_request demo_tables offline_world
     (new_assistant\<lparr>translation_cache := nine_entries\<rparr>) ''Legal document'' ''hi'' =
     (Inr \<lparr>translated_text = ''kanuni dastavez'', source_text = ''Legal document'',
           source_lang = ''en'', target_lang = ''hi'',
           audio_response = ''temp/translated_hi_20240101120000.wav''\<rparr>,
      \<lparr>translation_cache = nine_entries @ [(''Legal document_hi'', ''kanuni dastavez'')],
       translation_model = False,
       cache_file = nine_entries @ [(''Legal document_hi'', ''kanuni dastavez'')],
       events = [DictionaryFallback,
                 SaveCache (nine_entries @ [(''Legal document_hi'', ''kanuni dastavez'')]),
                 WriteAudio ''temp/translated_hi_20240101120000.wav'']\<rparr>) \<and>
   dict_get nine_entries (cache_key_of ''Legal document'' ''hi'') = None \<and>
   successful ''kanuni dastavez'' \<and>
   length (nine_entries @ [(''Legal document_hi'', ''kanuni dastavez'')]) mod 10 = 0 \<and>
   events (snd (handle_translation_request demo_tables offline_world new_assistant
     ''Legal document'' ''hi'')) =
     [DictionaryFallback, WriteAudio ''temp/translated_hi_20240101120000.wav'']"
proof -
  have miss: "dict_get (translation_cache (new_assistant\<lparr>translation_cache := nine_entries\<rparr>))
      (cache_key_of ''Legal document'' ''hi'') = None"
    by (simp add: dict_get_def nine_entries_def cache_key_of_def)
  note t = successful_translation_cached [OF tenth_call miss tenth_fresh]
  have m: "dict_get nine_entries (cache_key_of ''Legal document'' ''hi'') = None"
    using miss by simp
  have s: "successful ''kanuni dastavez''" by (simp add: successful_def)
  have l: "length (nine_entries @ [(''Legal document_hi'', ''kanuni dastavez'')]) mod 10 = 0"
    by (simp add: nine_entries_def)
  have e: "events (snd (handle_translation_request demo_tables offline_world new_assistant
     ''Legal document'' ''hi'')) =
     [DictionaryFallback, WriteAudio ''temp/translated_hi_20240101120000.wav'']"
    by (simp add: first_call)
  from t show ?thesis by (intro conjI tenth_call m s l e)
qed

end
